theory Spec2Isabelle
  imports Complex_Main
begin

section \<open>Data model\<close>

text \<open>
  The order service keeps three MongoDB collections, users, products and orders, behind
  mongoose models. Every mongoose document carries its identity (\<open>extends Document\<close>).

  An identity is an ObjectId; as a string it is 24 hexadecimal digits, in lower case when
  it is printed (\<open>toString()\<close>, the getter \<open>id\<close>). The type \<open>objectId\<close> is used for
  identities in that printed form. A string that comes from a caller is any string:
  \<open>new mongoose.Types.ObjectId(s)\<close> raises unless \<open>s\<close> is 24 hexadecimal digits, of either
  case, and mongoose raises a \<open>CastError\<close> when such a string is used as an identity in a
  query.
\<close>

type_synonym objectId = string

definition isHexDigit :: "char \<Rightarrow> bool" where
  "isHexDigit c = (c \<in> set ''0123456789abcdefABCDEF'')"

definition lowerHex :: "char \<Rightarrow> char" where
  "lowerHex c =
     (if c = CHR ''A'' then CHR ''a'' else if c = CHR ''B'' then CHR ''b''
      else if c = CHR ''C'' then CHR ''c'' else if c = CHR ''D'' then CHR ''d''
      else if c = CHR ''E'' then CHR ''e'' else if c = CHR ''F'' then CHR ''f'' else c)"

definition isValid :: "string \<Rightarrow> bool" where
  "isValid s = (length s = 24 \<and> list_all isHexDigit s)"

definition hexString :: "string \<Rightarrow> objectId" where
  "hexString s = map lowerHex s"

text \<open>
  The error classes of error.middleware: \<open>ApiError\<close> with a message and a status code and
  its subclasses, each with a fixed status code. \<open>TypeError\<close> is what JavaScript raises
  when a property of \<open>undefined\<close> or \<open>null\<close> is read; \<open>BSONError\<close> is raised by
  \<open>new ObjectId\<close>, \<open>CastError\<close> and \<open>MongooseValidationError\<close> by mongoose, and
  \<open>MongoServerError\<close> by the driver; the messages of these are shortened.
\<close>

datatype error =
    ApiError string nat
  | NotFoundError string
  | ValidationError string
  | UnauthorizedError string
  | ForbiddenError string
  | ConflictError string
  | TypeError string
  | BSONError string
  | CastError string
  | MongooseValidationError string
  | MongoServerError string

fun statusCode :: "error \<Rightarrow> nat option" where
  "statusCode (ApiError m c) = Some c"
| "statusCode (NotFoundError m) = Some 404"
| "statusCode (ValidationError m) = Some 400"
| "statusCode (UnauthorizedError m) = Some 401"
| "statusCode (ForbiddenError m) = Some 403"
| "statusCode (ConflictError m) = Some 409"
| "statusCode (TypeError m) = None"
| "statusCode (BSONError m) = None"
| "statusCode (CastError m) = None"
| "statusCode (MongooseValidationError m) = None"
| "statusCode (MongoServerError m) = None"

definition new_ObjectId :: "string \<Rightarrow> error + objectId" where
  "new_ObjectId s =
     (if isValid s then Inr (hexString s)
      else Inl (BSONError ''input must be a 24 character hex string, 12 byte Uint8Array, or an integer''))"

definition castObjectId :: "string \<Rightarrow> error + objectId" where
  "castObjectId s =
     (if isValid s then Inr (hexString s)
      else Inl (CastError (''Cast to ObjectId failed for value '' @ s)))"

text \<open>\<open>ids.map(id => new ObjectId(id))\<close>: the first string that is not an identity
  raises.\<close>

fun objectIds :: "string list \<Rightarrow> error + objectId list" where
  "objectIds [] = Inr []"
| "objectIds (s # rest) =
     (case new_ObjectId s of
        Inl e \<Rightarrow> Inl e
      | Inr i \<Rightarrow> (case objectIds rest of Inl e \<Rightarrow> Inl e | Inr oids \<Rightarrow> Inr (i # oids)))"

text \<open>
  Numbers. Stock and quantities are integers (the request schema and the product schema
  of the validators ask for \<open>int()\<close>), and MongoDB adds them exactly. A price is a
  JavaScript number, a double; the comments of the models say "in cents", but no schema
  asks for an integer, so prices, unit prices and totals are rationals here. Where the
  source computes with them in JavaScript (the \<open>reduce\<close> of the total), every operation
  rounds its result to a double; the rounding is the parameter \<open>fl\<close> of the functions
  that compute. What IEEE arithmetic guarantees of \<open>fl\<close> and the theorems use is that an
  integer of magnitude at most \<open>2 ^ 53\<close> is a double, and that a number that is not
  negative is not rounded to a negative one. Infinities and NaN are not numbers of the
  model: no theorem depends on a sum that overflows.
\<close>

definition exactOnSafeIntegers :: "(rat \<Rightarrow> rat) \<Rightarrow> bool" where
  "exactOnSafeIntegers fl = (\<forall>n::int. \<bar>n\<bar> \<le> 2 ^ 53 \<longrightarrow> fl (of_int n) = of_int n)"

definition roundsNonNegative :: "(rat \<Rightarrow> rat) \<Rightarrow> bool" where
  "roundsNonNegative fl = (\<forall>x. 0 \<le> x \<longrightarrow> 0 \<le> fl x)"

record Document =
  doc_id :: objectId

text \<open>\<open>IUser\<close> (models/User, without the password hash, which \<open>populate\<close> leaves out) and
  \<open>IProduct\<close> (models/Product).\<close>

datatype Role = admin | customer

record IUser = Document +
  email :: string
  role :: Role

record IProduct = Document +
  name :: string
  price :: rat
  stock :: int

text \<open>
  A path that refers to another document (\<open>ref: 'User'\<close>, \<open>ref: 'Product'\<close>) holds the
  ObjectId of that document; after \<open>populate\<close> it holds the document itself, or null when
  no document has the identity. The interfaces declare the ObjectId only.
\<close>

datatype 'd ref = ObjectId objectId | Populated 'd | Null

text \<open>\<open>OrderStatus\<close>, \<open>IOrderItem\<close> and \<open>IOrder\<close> (models/Order.ts). A line of a create
  request has a product identity, as a string, and a quantity; \<open>CreateOrderItemDto\<close> adds
  the unit price; the item of a stored order has the same fields with a reference in
  \<open>productId\<close>.\<close>

datatype OrderStatus = created | paid | cancelled

record 'r ItemDto =
  productId :: 'r
  quantity :: int

record 'r OrderItem = "'r ItemDto" +
  unitPrice :: rat

type_synonym CreateOrderItemDto = "string OrderItem"

type_synonym IOrderItem = "IProduct ref OrderItem"

record IOrder = Document +
  userId :: "IUser ref"
  items :: "IOrderItem list"
  total_cents :: rat
  status :: OrderStatus

text \<open>\<open>OrderResult\<close> (order.service.ts). The field \<open>order\<close> is filled from
  \<open>updatedOrder!\<close> in two places; the assertion has no effect at run time, so the field
  can hold null.\<close>

record OrderResult =
  order :: "IOrder option"
  message :: string

text \<open>
  \<open>toString()\<close> on a reference. On an ObjectId it is the printed identity. A mongoose
  document prints itself as \<open>util.inspect\<close> does, an object literal in braces (shown here
  up to its identity); of that text only one thing is used below: it is not 24
  hexadecimal digits. On null the call raises.
\<close>

text \<open>The message of the \<open>TypeError\<close> that JavaScript raises when the property \<open>prop\<close> of
  \<open>undefined\<close> or \<open>null\<close> is read.\<close>

definition cannotRead :: "string \<Rightarrow> string \<Rightarrow> string" where
  "cannotRead prop v =
     ''Cannot read properties of '' @ v @ '' (reading '' @ [CHR 0x27] @ prop @ [CHR 0x27] @ '')''"

definition inspect :: "'a Document_scheme \<Rightarrow> string" where
  "inspect d = ''{ _id: new ObjectId('' @ [CHR 0x27] @ doc_id d @ [CHR 0x27] @ ''), ... }''"

fun toString :: "'a Document_scheme ref \<Rightarrow> error + string" where
  "toString (ObjectId i) = Inr i"
| "toString (Populated d) = Inr (inspect d)"
| "toString Null = Inl (TypeError (cannotRead ''toString'' ''null''))"

section \<open>The database, sessions and promises\<close>

text \<open>
  A \<open>store\<close> is the content of the collections. The \<open>database\<close> holds the durable store
  and, while a transaction is open, the store as the transaction sees it: the durable
  store it started from with the writes issued against its session. The \<open>journal\<close> lists
  every state that the durable store has been given, one entry for each write outside a
  transaction and one for each commit; it is what another reader of the database could
  have seen. An asynchronous function is a function from the database to a \<open>promise\<close>:
  resolved with a value or rejected with an error, together with the database it leaves
  behind.
\<close>

record store =
  products :: "IProduct list"
  orders :: "IOrder list"
  users :: "IUser list"

datatype ClientSession = ClientSession

record database =
  durable :: store
  txn :: "store option"
  journal :: "store list"

datatype 'a promise = Resolved 'a database | Rejected error database

text \<open>An operation that is given a session reads and writes the open transaction; an
  operation without one (the \<open>session?\<close> parameter left out) works on the durable store.\<close>

definition view :: "ClientSession option \<Rightarrow> database \<Rightarrow> store" where
  "view session db =
     (case session of
        None \<Rightarrow> durable db
      | Some _ \<Rightarrow> (case txn db of None \<Rightarrow> durable db | Some s \<Rightarrow> s))"

definition write_durable :: "(store \<Rightarrow> store) \<Rightarrow> database \<Rightarrow> database" where
  "write_durable f db = db\<lparr>durable := f (durable db), journal := journal db @ [f (durable db)]\<rparr>"

definition issue :: "ClientSession option \<Rightarrow> (store \<Rightarrow> store) \<Rightarrow> database \<Rightarrow> database" where
  "issue session f db =
     (case session of
        None \<Rightarrow> write_durable f db
      | Some _ \<Rightarrow> (case txn db of
                    None \<Rightarrow> write_durable f db
                  | Some s \<Rightarrow> db\<lparr>txn := Some (f s)\<rparr>))"

text \<open>\<open>findByIdAndUpdate\<close> changes the first document of the collection with the given
  identity, if there is one.\<close>

fun update_first :: "('a \<Rightarrow> bool) \<Rightarrow> ('a \<Rightarrow> 'a) \<Rightarrow> 'a list \<Rightarrow> 'a list" where
  "update_first P f [] = []"
| "update_first P f (x # xs) = (if P x then f x # xs else x # update_first P f xs)"

text \<open>\<open>populate\<close> replaces the ObjectId in a path by the document that has it, or by
  null.\<close>

fun populate_ref :: "'a Document_scheme list \<Rightarrow> 'a Document_scheme ref \<Rightarrow> 'a Document_scheme ref" where
  "populate_ref coll (ObjectId i) =
     (case find (\<lambda>d. doc_id d = i) coll of None \<Rightarrow> Null | Some d \<Rightarrow> Populated d)"
| "populate_ref coll (Populated d) = Populated d"
| "populate_ref coll Null = Null"

text \<open>\<open>.populate('items.productId').populate('userId', '-passwordHash')\<close>, as
  \<open>findById\<close> and \<open>updateStatus\<close> of the order repository end.\<close>

definition populate :: "store \<Rightarrow> IOrder \<Rightarrow> IOrder" where
  "populate s ord =
     ord\<lparr>items := map (\<lambda>item. item\<lparr>productId := populate_ref (products s) (productId item)\<rparr>)
                      (items ord),
         userId := populate_ref (users s) (userId ord)\<rparr>"

section \<open>Product repository and product service\<close>

text \<open>
  \<open>ProductRepositoryImpl.findByIds\<close>: the strings are made ObjectIds, and
  \<open>Product.find({ _id: { $in: objectIds } })\<close> returns the documents of the collection
  whose identity is among them, each document once.
\<close>

definition findByIds :: "string list \<Rightarrow> database \<Rightarrow> IProduct list promise" where
  "findByIds ids db =
     (case objectIds ids of
        Inl e \<Rightarrow> Rejected e db
      | Inr oids \<Rightarrow> Resolved (filter (\<lambda>p. doc_id p \<in> set oids) (products (durable db))) db)"

text \<open>
  \<open>ProductRepositoryImpl.updateStock\<close>: \<open>findByIdAndUpdate\<close> casts the string to an
  ObjectId, and with \<open>$inc\<close> and \<open>new: true\<close> resolves with the updated document, or with
  null when no product has the identity. The validators that \<open>runValidators\<close> turns on
  look at \<open>$set\<close> and its like, not at \<open>$inc\<close>, so the function adds \<open>quantityChange\<close>
  whatever the result.
\<close>

definition updateStock ::
  "string \<Rightarrow> int \<Rightarrow> ClientSession option \<Rightarrow> database \<Rightarrow> IProduct option promise" where
  "updateStock pId quantityChange session db =
     (case castObjectId pId of
        Inl e \<Rightarrow> Rejected e db
      | Inr i \<Rightarrow>
         (case find (\<lambda>p. doc_id p = i) (products (view session db)) of
            None \<Rightarrow> Resolved None db
          | Some p \<Rightarrow>
              Resolved (Some (p\<lparr>stock := stock p + quantityChange\<rparr>))
                (issue session
                  (\<lambda>s. s\<lparr>products :=
                     update_first (\<lambda>p. doc_id p = i)
                       (\<lambda>p. p\<lparr>stock := stock p + quantityChange\<rparr>) (products s)\<rparr>) db)))"

text \<open>\<open>ProductService.getProductsByIds\<close> and \<open>ProductService.updateProductStock\<close> pass
  their arguments to the repository and return what it returns (the second one logs the
  new stock when a product came back).\<close>

definition getProductsByIds :: "string list \<Rightarrow> database \<Rightarrow> IProduct list promise" where
  "getProductsByIds ids db = findByIds ids db"

definition updateProductStock ::
  "string \<Rightarrow> int \<Rightarrow> ClientSession option \<Rightarrow> database \<Rightarrow> IProduct option promise" where
  "updateProductStock pId quantityChange session db =
     (case updateStock pId quantityChange session db of
        Rejected e db' \<Rightarrow> Rejected e db'
      | Resolved product db' \<Rightarrow> Resolved product db')"

section \<open>Order repository\<close>

text \<open>The validators of \<open>orderSchema\<close> and \<open>orderItemSchema\<close>, run by \<open>save\<close>: at least one
  item, every quantity at least 1, every unit price and the total at least 0.\<close>

definition orderSchemaValid :: "IOrder \<Rightarrow> bool" where
  "orderSchemaValid ord =
     (0 < length (items ord)
      \<and> list_all (\<lambda>i. 1 \<le> quantity i \<and> 0 \<le> unitPrice i) (items ord)
      \<and> 0 \<le> total_cents ord)"

text \<open>\<open>order.save({ session })\<close>: validation, then the insert, which the unique index on
  the identity rejects when the identity is already in the collection.\<close>

definition save :: "IOrder \<Rightarrow> ClientSession option \<Rightarrow> database \<Rightarrow> IOrder promise" where
  "save ord session db =
     (if \<not> orderSchemaValid ord
      then Rejected (MongooseValidationError ''Order validation failed'') db
      else if doc_id ord \<in> set (map doc_id (orders (view session db)))
      then Rejected (MongoServerError ''E11000 duplicate key error'') db
      else Resolved ord (issue session (\<lambda>s. s\<lparr>orders := orders s @ [ord]\<rparr>) db))"

text \<open>
  \<open>OrderRepositoryImpl.create\<close>. \<open>new Order\<close> gives the document a new identity; it is the
  argument \<open>newId\<close>. The fields are computed in the order of the object literal: the
  ObjectId of the user, the items with the ObjectIds of their products, the total. The
  total is the \<open>reduce\<close> over the items, each product and each sum rounded by \<open>fl\<close>.
\<close>

fun itemDocuments :: "CreateOrderItemDto list \<Rightarrow> error + IOrderItem list" where
  "itemDocuments [] = Inr []"
| "itemDocuments (item # rest) =
     (case new_ObjectId (productId item) of
        Inl e \<Rightarrow> Inl e
      | Inr i \<Rightarrow>
         (case itemDocuments rest of
            Inl e \<Rightarrow> Inl e
          | Inr docs \<Rightarrow>
              Inr (\<lparr>productId = ObjectId i, quantity = quantity item,
                    unitPrice = unitPrice item\<rparr> # docs)))"

definition OrderRepository_create ::
  "(rat \<Rightarrow> rat) \<Rightarrow> objectId \<Rightarrow> string \<Rightarrow> CreateOrderItemDto list \<Rightarrow> ClientSession option
     \<Rightarrow> database \<Rightarrow> IOrder promise" where
  "OrderRepository_create fl newId uId data_items session db =
     (case new_ObjectId uId of
        Inl e \<Rightarrow> Rejected e db
      | Inr u \<Rightarrow>
         (case itemDocuments data_items of
            Inl e \<Rightarrow> Rejected e db
          | Inr docs \<Rightarrow>
              save \<lparr>doc_id = newId, userId = ObjectId u, items = docs,
                    total_cents =
                      foldl (\<lambda>sum item. fl (sum + fl (of_int (quantity item) * unitPrice item)))
                        0 data_items,
                    status = created\<rparr> session db))"

text \<open>\<open>OrderRepositoryImpl.findById\<close>: the order with the identity, populated.\<close>

definition findById :: "string \<Rightarrow> database \<Rightarrow> IOrder option promise" where
  "findById ident db =
     (case castObjectId ident of
        Inl e \<Rightarrow> Rejected e db
      | Inr i \<Rightarrow>
          Resolved (map_option (populate (durable db))
                      (find (\<lambda>ord. doc_id ord = i) (orders (durable db)))) db)"

text \<open>\<open>OrderRepositoryImpl.updateStatus\<close>: \<open>findByIdAndUpdate\<close> with \<open>$set\<close> and
  \<open>new: true\<close>, the updated order populated.\<close>

definition updateStatus ::
  "string \<Rightarrow> OrderStatus \<Rightarrow> ClientSession option \<Rightarrow> database \<Rightarrow> IOrder option promise" where
  "updateStatus ident st session db =
     (case castObjectId ident of
        Inl e \<Rightarrow> Rejected e db
      | Inr i \<Rightarrow>
         (case find (\<lambda>ord. doc_id ord = i) (orders (view session db)) of
            None \<Rightarrow> Resolved None db
          | Some ord \<Rightarrow>
              Resolved (Some (populate (view session db) (ord\<lparr>status := st\<rparr>)))
                (issue session
                  (\<lambda>s. s\<lparr>orders :=
                     update_first (\<lambda>ord. doc_id ord = i) (\<lambda>ord. ord\<lparr>status := st\<rparr>)
                       (orders s)\<rparr>) db)))"

text \<open>
  \<open>OrderRepositoryImpl.withTransaction\<close>: a new session, \<open>startTransaction\<close>, the callback;
  then \<open>commitTransaction\<close> and the result, or, in the \<open>catch\<close>, \<open>abortTransaction\<close> and
  \<open>throw error\<close>; \<open>endSession\<close> in the \<open>finally\<close>. The commit gives the durable store the
  state of the transaction, in one step.
\<close>

definition startTransaction :: "database \<Rightarrow> database" where
  "startTransaction db = db\<lparr>txn := Some (durable db)\<rparr>"

definition commitTransaction :: "database \<Rightarrow> database" where
  "commitTransaction db =
     (case txn db of
        None \<Rightarrow> db
      | Some s \<Rightarrow> db\<lparr>durable := s, txn := None, journal := journal db @ [s]\<rparr>)"

definition abortTransaction :: "database \<Rightarrow> database" where
  "abortTransaction db = db\<lparr>txn := None\<rparr>"

definition endSession :: "database \<Rightarrow> database" where
  "endSession db = db\<lparr>txn := None\<rparr>"

definition withTransaction ::
  "(ClientSession \<Rightarrow> database \<Rightarrow> 'a promise) \<Rightarrow> database \<Rightarrow> 'a promise" where
  "withTransaction callback db =
     (let session = ClientSession;
          db1 = startTransaction db
      in case callback session db1 of
           Resolved result db2 \<Rightarrow> Resolved result (endSession (commitTransaction db2))
         | Rejected err db2 \<Rightarrow> Rejected err (endSession (abortTransaction db2)))"

section \<open>Order service\<close>

text \<open>What a template string prints for an integer, and \<open>Array.join\<close>.\<close>

definition digit :: "nat \<Rightarrow> char" where
  "digit d = ''0123456789'' ! d"

function show_nat :: "nat \<Rightarrow> string" where
  "show_nat n = (if n < 10 then [digit n] else show_nat (n div 10) @ [digit (n mod 10)])"
  by pat_completeness auto
termination
  by (relation "measure id") auto

declare show_nat.simps [simp del]

definition show_int :: "int \<Rightarrow> string" where
  "show_int i = (if i < 0 then CHR ''-'' # show_nat (nat (- i)) else show_nat (nat i))"

fun join :: "string \<Rightarrow> string list \<Rightarrow> string" where
  "join sep [] = []"
| "join sep [x] = x"
| "join sep (x # y # ys) = x @ sep @ join sep (y # ys)"

fun statusName :: "OrderStatus \<Rightarrow> string" where
  "statusName created = ''created''"
| "statusName paid = ''paid''"
| "statusName cancelled = ''cancelled''"

text \<open>\<open>new Map(products.map(p => [p.id.toString(), p]))\<close>: the key is the printed identity
  of the product, and a later entry with the same key replaces an earlier one.\<close>

definition productMap_of :: "IProduct list \<Rightarrow> (string \<rightharpoonup> IProduct)" where
  "productMap_of ps = map_of (rev (map (\<lambda>p. (doc_id p, p)) ps))"

text \<open>
  The loop "Validate stock for all items" of \<open>createOrder\<close>: it raises at the first line
  whose product has less stock than the line asks for. The map is asked for the string of
  the request; \<open>productMap.get(item.productId)!\<close> is undefined for a string that is not a
  key, and reading \<open>stock\<close> from it raises a \<open>TypeError\<close>.
\<close>

fun validateStock :: "(string \<rightharpoonup> IProduct) \<Rightarrow> string ItemDto list \<Rightarrow> error option" where
  "validateStock productMap [] = None"
| "validateStock productMap (item # rest) =
     (case productMap (productId item) of
        None \<Rightarrow> Some (TypeError (cannotRead ''stock'' ''undefined''))
      | Some product \<Rightarrow>
          if stock product < quantity item
          then Some (ValidationError
                 (''Insufficient stock for product '' @ [CHR 0x22] @ name product
                  @ [CHR 0x22] @ ''. Available: ''
                  @ show_int (stock product) @ '', Requested: '' @ show_int (quantity item)))
          else validateStock productMap rest)"

text \<open>"Prepare order items with unit prices": the \<open>map\<close> that copies each line and takes the
  unit price from the product in the map.\<close>

fun orderItems_of ::
  "(string \<rightharpoonup> IProduct) \<Rightarrow> string ItemDto list \<Rightarrow> error + CreateOrderItemDto list" where
  "orderItems_of productMap [] = Inr []"
| "orderItems_of productMap (item # rest) =
     (case productMap (productId item) of
        None \<Rightarrow> Inl (TypeError (cannotRead ''price'' ''undefined''))
      | Some product \<Rightarrow>
          (case orderItems_of productMap rest of
             Inl e \<Rightarrow> Inl e
           | Inr more_items \<Rightarrow>
               Inr (\<lparr>productId = productId item, quantity = quantity item,
                     unitPrice = price product\<rparr> # more_items)))"

text \<open>
  The loop "Decrease stock for each product" inside the transaction of \<open>createOrder\<close>: one
  awaited \<open>updateProductStock\<close> for each line of the request, in order, its result
  dropped.
\<close>

fun decreaseStock :: "string ItemDto list \<Rightarrow> ClientSession \<Rightarrow> database \<Rightarrow> unit promise" where
  "decreaseStock [] session db = Resolved () db"
| "decreaseStock (item # rest) session db =
     (case updateProductStock (productId item) (- quantity item) (Some session) db of
        Rejected e db' \<Rightarrow> Rejected e db'
      | Resolved _ db' \<Rightarrow> decreaseStock rest session db')"

text \<open>
  The loop "Restore stock for each item" inside the transaction of \<open>cancelOrder\<close>, over
  the items of the order that \<open>findById\<close> returned: \<open>item.productId.toString()\<close> is the
  string given to \<open>updateProductStock\<close>.
\<close>

fun restoreStock :: "IOrderItem list \<Rightarrow> ClientSession \<Rightarrow> database \<Rightarrow> unit promise" where
  "restoreStock [] session db = Resolved () db"
| "restoreStock (item # rest) session db =
     (case toString (productId item) of
        Inl e \<Rightarrow> Rejected e db
      | Inr pId \<Rightarrow>
         (case updateProductStock pId (quantity item) (Some session) db of
            Rejected e db' \<Rightarrow> Rejected e db'
          | Resolved _ db' \<Rightarrow> restoreStock rest session db'))"

text \<open>
  \<open>OrderService.createOrder\<close>. The checks come in the order of the source: the empty
  list, the quantities, the products found, the stock; then the transaction. \<open>foundIds\<close>
  are printed identities, compared with the strings of the request.
\<close>

definition createOrder ::
  "(rat \<Rightarrow> rat) \<Rightarrow> objectId \<Rightarrow> string \<Rightarrow> string ItemDto list \<Rightarrow> database
     \<Rightarrow> OrderResult promise" where
  "createOrder fl newId uId req_items db =
     (if length req_items = 0
      then Rejected (ValidationError ''Order must contain at least one item'') db
      else if list_ex (\<lambda>item. quantity item \<le> 0) req_items
      then Rejected (ValidationError ''Quantity must be greater than 0'') db
      else
        let productIds = map productId req_items in
        case getProductsByIds productIds db of
          Rejected e db' \<Rightarrow> Rejected e db'
        | Resolved prods db' \<Rightarrow>
            if length prods \<noteq> length productIds
            then
              let foundIds = map doc_id prods;
                  missingIds = filter (\<lambda>i. i \<notin> set foundIds) productIds
              in Rejected (ValidationError (''Products not found: '' @ join '', '' missingIds)) db'
            else
              let productMap = productMap_of prods in
              case validateStock productMap req_items of
                Some e \<Rightarrow> Rejected e db'
              | None \<Rightarrow>
                  (case orderItems_of productMap req_items of
                     Inl e \<Rightarrow> Rejected e db'
                   | Inr orderItems \<Rightarrow>
                       withTransaction
                         (\<lambda>session dbt.
                            case OrderRepository_create fl newId uId orderItems (Some session) dbt of
                              Rejected e dbt' \<Rightarrow> Rejected e dbt'
                            | Resolved ord dbt' \<Rightarrow>
                                (case decreaseStock req_items session dbt' of
                                   Rejected e dbt'' \<Rightarrow> Rejected e dbt''
                                 | Resolved _ dbt'' \<Rightarrow>
                                     Resolved \<lparr>order = Some ord,
                                               message = ''Order created successfully''\<rparr> dbt''))
                         db'))"

text \<open>
  The access check of \<open>payOrder\<close> and \<open>cancelOrder\<close>,
  \<open>!isAdmin && order.userId.toString() !== userId\<close>, on the order that \<open>findById\<close>
  returned. \<open>userId\<close> is an optional parameter, and \<open>isAdmin\<close> left out counts as false.
  For an admin the second operand is not evaluated.
\<close>

definition accessDenied :: "bool \<Rightarrow> IOrder \<Rightarrow> string option \<Rightarrow> error + bool" where
  "accessDenied isAdmin ord uId =
     (if isAdmin then Inr False
      else case toString (userId ord) of
             Inl e \<Rightarrow> Inl e
           | Inr owner \<Rightarrow> Inr (Some owner \<noteq> uId))"

text \<open>
  \<open>OrderService.payOrder\<close>. The last check of the status cannot fail for the three
  values of \<open>OrderStatus\<close>; it is kept as the source has it. The status is updated without
  a session.
\<close>

definition payOrder ::
  "string \<Rightarrow> string option \<Rightarrow> bool \<Rightarrow> database \<Rightarrow> OrderResult promise" where
  "payOrder orderId uId isAdmin db =
     (case findById orderId db of
        Rejected e db' \<Rightarrow> Rejected e db'
      | Resolved None db' \<Rightarrow> Rejected (ApiError ''Order not found'' 404) db'
      | Resolved (Some ord) db' \<Rightarrow>
         (case accessDenied isAdmin ord uId of
            Inl e \<Rightarrow> Rejected e db'
          | Inr denied \<Rightarrow>
              if denied
              then Rejected (ApiError ''Access denied'' 403) db'
              else if status ord = paid
              then Resolved \<lparr>order = Some ord, message = ''Order is already paid''\<rparr> db'
              else if status ord = cancelled
              then Rejected (ConflictError ''Cannot pay for a cancelled order'') db'
              else if status ord \<noteq> created
              then Rejected (ApiError (''Cannot pay order with status: ''
                               @ statusName (status ord)) 400) db'
              else
                (case updateStatus orderId paid None db' of
                   Rejected e db'' \<Rightarrow> Rejected e db''
                 | Resolved updatedOrder db'' \<Rightarrow>
                     Resolved \<lparr>order = updatedOrder, message = ''Payment successful''\<rparr> db'')))"

text \<open>
  \<open>OrderService.cancelOrder\<close>: the same two checks, the idempotent branch, then the
  transaction that sets the status and gives the stock back, line by line, from the items
  of the order read at the start.
\<close>

definition cancelOrder ::
  "string \<Rightarrow> string option \<Rightarrow> bool \<Rightarrow> database \<Rightarrow> OrderResult promise" where
  "cancelOrder orderId uId isAdmin db =
     (case findById orderId db of
        Rejected e db' \<Rightarrow> Rejected e db'
      | Resolved None db' \<Rightarrow> Rejected (ApiError ''Order not found'' 404) db'
      | Resolved (Some ord) db' \<Rightarrow>
         (case accessDenied isAdmin ord uId of
            Inl e \<Rightarrow> Rejected e db'
          | Inr denied \<Rightarrow>
              if denied
              then Rejected (ApiError ''Access denied'' 403) db'
              else if status ord = cancelled
              then Resolved \<lparr>order = Some ord, message = ''Order is already cancelled''\<rparr> db'
              else if status ord \<noteq> created \<and> status ord \<noteq> paid
              then Rejected (ApiError (''Cannot cancel order with status: ''
                               @ statusName (status ord)) 400) db'
              else
                withTransaction
                  (\<lambda>session dbt.
                     case updateStatus orderId cancelled (Some session) dbt of
                       Rejected e dbt' \<Rightarrow> Rejected e dbt'
                     | Resolved updatedOrder dbt' \<Rightarrow>
                         (case restoreStock (items ord) session dbt' of
                            Rejected e dbt'' \<Rightarrow> Rejected e dbt''
                          | Resolved _ dbt'' \<Rightarrow>
                              Resolved \<lparr>order = updatedOrder,
                                        message = ''Order cancelled successfully''\<rparr> dbt''))
                  db'))"

section \<open>Calls in sequence, and the data of the examples\<close>

text \<open>The database a call leaves behind, and \<open>n\<close> calls of the same operation one after the
  other, each on the database the call before it left.\<close>

fun db_after :: "'a promise \<Rightarrow> database" where
  "db_after (Resolved r db) = db"
| "db_after (Rejected e db) = db"

fun isRejected :: "'a promise \<Rightarrow> bool" where
  "isRejected (Resolved r db) = False"
| "isRejected (Rejected e db) = True"

fun retry :: "nat \<Rightarrow> (database \<Rightarrow> 'a promise) \<Rightarrow> database \<Rightarrow> 'a promise list" where
  "retry 0 call db = []"
| "retry (Suc n) call db = call db # retry n call (db_after (call db))"

text \<open>A list of writes issued one after the other against a session.\<close>

definition issue_all :: "(store \<Rightarrow> store) list \<Rightarrow> ClientSession \<Rightarrow> database \<Rightarrow> database" where
  "issue_all ws session db = fold (\<lambda>w. issue (Some session) w) ws db"

text \<open>The calls of the order lifecycle as values, and what a call leaves behind.\<close>

datatype operation =
    Create objectId string "string ItemDto list"
  | Pay string "string option" bool
  | Cancel string "string option" bool

fun perform :: "(rat \<Rightarrow> rat) \<Rightarrow> operation \<Rightarrow> database \<Rightarrow> database" where
  "perform fl (Create newId uId req_items) db = db_after (createOrder fl newId uId req_items db)"
| "perform fl (Pay orderId uId isAdmin) db = db_after (payOrder orderId uId isAdmin db)"
| "perform fl (Cancel orderId uId isAdmin) db = db_after (cancelOrder orderId uId isAdmin db)"

text \<open>
  What MongoDB and the schemas keep true of every stored collection: identities are
  unique within a collection (the unique index on the identity) and a price is at least 0
  (\<open>productSchema\<close>); and what the theorems on the stock assume and maintain.
  \<open>requested lines i\<close> is the total quantity that the lines ask of the item with the
  identity \<open>i\<close>.
\<close>

definition uniqueIds :: "'a Document_scheme list \<Rightarrow> bool" where
  "uniqueIds docs = distinct (map doc_id docs)"

definition pricesValid :: "store \<Rightarrow> bool" where
  "pricesValid s = list_all (\<lambda>p. 0 \<le> price p) (products s)"

definition stockNonNegative :: "store \<Rightarrow> bool" where
  "stockNonNegative s = list_all (\<lambda>p. 0 \<le> stock p) (products s)"

definition stockInvariant :: "store \<Rightarrow> bool" where
  "stockInvariant s = (uniqueIds (products s) \<and> stockNonNegative s)"

abbreviation catalogue :: "database \<Rightarrow> objectId \<Rightarrow> IProduct option" where
  "catalogue db i \<equiv> find (\<lambda>p. doc_id p = i) (products (durable db))"

definition requested :: "(string, 'a) ItemDto_scheme list \<Rightarrow> objectId \<Rightarrow> int" where
  "requested lines i =
     sum_list (map quantity (filter (\<lambda>l. hexString (productId l) = i) lines))"

text \<open>
  The data of the scenarios. Item A has stock 10 at 500, item B stock 2; no item has the
  identity Z. Users U0 (an admin), U1 and U2 exist; no user has the identity U9. Orders
  O1 (created), O2 (paid) and O3 (cancelled) belong to U1, order O4 (created) to U9; each
  is for three of item A. O9 is the identity of the next order.
\<close>

definition id_A :: objectId where "id_A = ''aaaaaaaaaaaaaaaaaaaaaaaa''"
definition id_B :: objectId where "id_B = ''bbbbbbbbbbbbbbbbbbbbbbbb''"
definition id_Z :: objectId where "id_Z = ''ffffffffffffffffffffffff''"
definition id_U0 :: objectId where "id_U0 = ''000000000000000000000000''"
definition id_U1 :: objectId where "id_U1 = ''111111111111111111111111''"
definition id_U2 :: objectId where "id_U2 = ''222222222222222222222222''"
definition id_U9 :: objectId where "id_U9 = ''999999999999999999999999''"
definition id_O1 :: objectId where "id_O1 = ''c00000000000000000000001''"
definition id_O2 :: objectId where "id_O2 = ''c00000000000000000000002''"
definition id_O3 :: objectId where "id_O3 = ''c00000000000000000000003''"
definition id_O4 :: objectId where "id_O4 = ''c00000000000000000000004''"
definition id_O9 :: objectId where "id_O9 = ''c00000000000000000000009''"

text \<open>The identity of item A as a caller may write it, in upper case.\<close>

definition upper_A :: string where "upper_A = ''AAAAAAAAAAAAAAAAAAAAAAAA''"

definition item_A :: IProduct where
  "item_A = \<lparr>doc_id = id_A, name = ''Item A'', price = 500, stock = 10\<rparr>"

definition item_B :: IProduct where
  "item_B = \<lparr>doc_id = id_B, name = ''Item B'', price = 1000, stock = 2\<rparr>"

definition user_of :: "objectId \<Rightarrow> Role \<Rightarrow> IUser" where
  "user_of ident r = \<lparr>doc_id = ident, email = ''user@example.com'', role = r\<rparr>"

definition order_of :: "objectId \<Rightarrow> objectId \<Rightarrow> OrderStatus \<Rightarrow> IOrder" where
  "order_of ident owner st =
     \<lparr>doc_id = ident, userId = ObjectId owner,
      items = [\<lparr>productId = ObjectId id_A, quantity = 3, unitPrice = 500\<rparr>],
      total_cents = 1500, status = st\<rparr>"

definition shop_store :: store where
  "shop_store =
     \<lparr>products = [item_A, item_B],
      orders = [order_of id_O1 id_U1 created, order_of id_O2 id_U1 paid,
                order_of id_O3 id_U1 cancelled, order_of id_O4 id_U9 created],
      users = [user_of id_U0 admin, user_of id_U1 customer, user_of id_U2 customer]\<rparr>"

definition shop :: database where
  "shop = \<lparr>durable = shop_store, txn = None, journal = []\<rparr>"

text \<open>The request for three of item A, and the store after user U1 has placed it as
  order O9.\<close>

definition three_of_A :: "string ItemDto list" where
  "three_of_A = [\<lparr>productId = id_A, quantity = 3\<rparr>]"

definition store_after_O9 :: store where
  "store_after_O9 =
     shop_store\<lparr>products := [item_A\<lparr>stock := 7\<rparr>, item_B],
                orders := orders shop_store @ [order_of id_O9 id_U1 created]\<rparr>"

text \<open>A unit of work that issues one write against its session and then fails.\<close>

definition failing_work :: "ClientSession \<Rightarrow> database \<Rightarrow> unit promise" where
  "failing_work session db =
     (case updateProductStock id_A (- 3) (Some session) db of
        Rejected e db' \<Rightarrow> Rejected e db'
      | Resolved _ db' \<Rightarrow> Rejected (ConflictError ''stop'') db')"

section \<open>Basic facts about the repositories\<close>

lemma find_update_first:
  "(\<And>x. P (f x) = P x) \<Longrightarrow> find P (update_first P f xs) = map_option f (find P xs)"
  by (induction xs) auto

lemma find_None_iff_ids:
  "find (\<lambda>p. doc_id p = i) ps = None \<longleftrightarrow> i \<notin> set (map doc_id ps)"
  by (induction ps) auto

lemma find_SomeD: "find P xs = Some x \<Longrightarrow> x \<in> set xs \<and> P x"
  by (induction xs) (auto split: if_splits)

lemma find_unique_key:
  "distinct (map f xs) \<Longrightarrow> x \<in> set xs \<Longrightarrow> find (\<lambda>y. f y = f x) xs = Some x"
  by (induction xs) (auto simp add: image_iff)

lemma lowerHex_idem: "lowerHex (lowerHex c) = lowerHex c"
  by (simp add: lowerHex_def)

lemma hexString_idem: "hexString (hexString s) = hexString s"
  by (simp add: hexString_def lowerHex_idem)

lemma new_ObjectId_valid: "isValid s \<Longrightarrow> new_ObjectId s = Inr (hexString s)"
  by (simp add: new_ObjectId_def)

lemma castObjectId_valid: "isValid s \<Longrightarrow> castObjectId s = Inr (hexString s)"
  by (simp add: castObjectId_def)

lemma objectIds_eq:
  "objectIds ids =
     (if list_all isValid ids then Inr (map hexString ids)
      else Inl (BSONError ''input must be a 24 character hex string, 12 byte Uint8Array, or an integer''))"
  by (induction ids) (auto simp add: new_ObjectId_def)

lemma inspect_not_valid: "\<not> isValid (inspect d)"
  by (simp add: inspect_def isValid_def isHexDigit_def)

lemma populate_ref_not_ObjectId: "populate_ref coll r \<noteq> ObjectId i"
  by (cases r) (auto split: option.splits)

lemma withTransaction_unfold:
  "withTransaction work db =
     (case work ClientSession (startTransaction db) of
        Resolved result db2 \<Rightarrow>
          Resolved result
            \<lparr>durable = view (Some ClientSession) db2, txn = None,
             journal = (case txn db2 of None \<Rightarrow> journal db2 | Some s \<Rightarrow> journal db2 @ [s])\<rparr>
      | Rejected err db2 \<Rightarrow>
          Rejected err \<lparr>durable = durable db2, txn = None, journal = journal db2\<rparr>)"
  by (cases "work ClientSession (startTransaction db)";
      cases "txn (db_after (work ClientSession (startTransaction db)))")
     (simp_all add: withTransaction_def Let_def commitTransaction_def abortTransaction_def
       endSession_def view_def)

lemma startTransaction_eq:
  "startTransaction db = \<lparr>durable = durable db, txn = Some (durable db), journal = journal db\<rparr>"
  by (cases db) (simp add: startTransaction_def)

lemma issue_all_started:
  "issue_all ws session (startTransaction db)
     = \<lparr>durable = durable db, txn = Some (fold (\<lambda>w. w) ws (durable db)), journal = journal db\<rparr>"
proof -
  have "fold (\<lambda>w. issue (Some session) w) ws \<lparr>durable = d, txn = Some t, journal = j\<rparr>
          = \<lparr>durable = d, txn = Some (fold (\<lambda>w. w) ws t), journal = j\<rparr>" for d t j
    by (induction ws arbitrary: t) (simp_all add: issue_def)
  then show ?thesis
    by (simp add: issue_all_def startTransaction_eq)
qed

section \<open>Facts about the catalogue lookup and the stock updates\<close>

lemma update_first_unique:
  "distinct (map doc_id ps) \<Longrightarrow>
   update_first (\<lambda>p. doc_id p = i) f ps = map (\<lambda>p. if doc_id p = i then f p else p) ps"
proof (induction ps)
  case Nil
  then show ?case by simp
next
  case (Cons p ps)
  have "map (\<lambda>q. if doc_id q = i then f q else q) ps = ps" if "doc_id p = i"
    using Cons.prems that by (intro map_idI) (auto simp: image_iff)
  with Cons show ?case by simp
qed

lemma map_of_docs:
  "map_of (map (\<lambda>p. (doc_id p, p)) ps) i = find (\<lambda>p. doc_id p = i) ps"
  by (induction ps) auto

lemma map_of_rev_distinct:
  assumes "distinct (map fst xs)"
  shows "map_of (rev xs) = map_of xs"
proof (rule ext)
  fix k
  have d: "distinct (map fst (rev xs))"
    using assms by (simp add: rev_map [symmetric])
  show "map_of (rev xs) k = map_of xs k"
  proof (cases "map_of xs k")
    case None
    then have "k \<notin> fst ` set xs" by (simp add: map_of_eq_None_iff)
    then have "map_of (rev xs) k = None" by (simp add: map_of_eq_None_iff)
    with None show ?thesis by simp
  next
    case (Some v)
    then have "(k, v) \<in> set (rev xs)" by (auto dest: map_of_SomeD)
    with d have "map_of (rev xs) k = Some v" by (rule map_of_is_SomeI)
    with Some show ?thesis by simp
  qed
qed

lemma find_filter_ids:
  "find (\<lambda>p. doc_id p = i) (filter (\<lambda>p. doc_id p \<in> S) ps)
     = (if i \<in> S then find (\<lambda>p. doc_id p = i) ps else None)"
  by (induction ps) auto

lemma productMap_of_unique:
  assumes "distinct (map doc_id ps)"
  shows "productMap_of (filter (\<lambda>p. doc_id p \<in> S) ps)
           = (\<lambda>i. if i \<in> S then find (\<lambda>p. doc_id p = i) ps else None)"
proof (rule ext)
  fix i
  let ?F = "filter (\<lambda>p. doc_id p \<in> S) ps"
  have "distinct (map fst (map (\<lambda>p. (doc_id p, p)) ?F))"
    using assms by (simp add: comp_def distinct_map_filter)
  then have "productMap_of ?F = map_of (map (\<lambda>p. (doc_id p, p)) ?F)"
    unfolding productMap_of_def by (rule map_of_rev_distinct)
  then show "productMap_of ?F i = (if i \<in> S then find (\<lambda>p. doc_id p = i) ps else None)"
    by (simp only: map_of_docs find_filter_ids)
qed

lemma found_all_ids:
  assumes "distinct (map doc_id ps)"
      and "length (filter (\<lambda>p. doc_id p \<in> set ids) ps) = length ids"
  shows "distinct ids \<and> set ids \<subseteq> set (map doc_id ps)"
proof -
  let ?F = "filter (\<lambda>p. doc_id p \<in> set ids) ps"
  have dF: "distinct (map doc_id ?F)"
    using assms(1) by (rule distinct_map_filter)
  have sub: "set (map doc_id ?F) \<subseteq> set ids" by auto
  have "length ids = card (set (map doc_id ?F))"
    using dF assms(2) by (metis distinct_card length_map)
  also have "\<dots> \<le> card (set ids)"
    using sub by (intro card_mono) auto
  finally have le: "length ids \<le> card (set ids)" .
  then have d: "distinct ids"
    by (metis card_distinct card_length le_antisym)
  have "card (set (map doc_id ?F)) = card (set ids)"
    using dF assms(2) d by (metis distinct_card length_map)
  then have "set (map doc_id ?F) = set ids"
    using sub by (intro card_subset_eq) auto
  then have "set ids \<subseteq> set (map doc_id ps)" by auto
  with d show ?thesis by simp
qed

lemma found_all_ids_conv:
  assumes "distinct (map doc_id ps)" and "distinct ids" and "set ids \<subseteq> set (map doc_id ps)"
  shows "length (filter (\<lambda>p. doc_id p \<in> set ids) ps) = length ids"
proof -
  let ?F = "filter (\<lambda>p. doc_id p \<in> set ids) ps"
  have dF: "distinct (map doc_id ?F)"
    using assms(1) by (rule distinct_map_filter)
  have "set (map doc_id ?F) = set ids"
    using assms(3) by auto
  then have "card (set (map doc_id ?F)) = card (set ids)" by simp
  then show ?thesis
    using dF assms(2) by (metis distinct_card length_map)
qed

lemma updateProductStock_session:
  assumes "distinct (map doc_id (products t))" and "isValid s"
  shows "\<exists>r. updateProductStock s c (Some session) \<lparr>durable = d, txn = Some t, journal = j\<rparr>
           = Resolved r \<lparr>durable = d,
               txn = Some (t\<lparr>products :=
                 map (\<lambda>p. if doc_id p = hexString s then p\<lparr>stock := stock p + c\<rparr> else p)
                   (products t)\<rparr>),
               journal = j\<rparr>"
proof (cases "find (\<lambda>p. doc_id p = hexString s) (products t)")
  case None
  then have "hexString s \<notin> set (map doc_id (products t))"
    using find_None_iff_ids by blast
  then have "map (\<lambda>p. if doc_id p = hexString s then p\<lparr>stock := stock p + c\<rparr> else p) (products t)
               = products t"
    by (intro map_idI) (auto simp add: image_iff)
  with None show ?thesis
    by (simp add: updateProductStock_def updateStock_def view_def castObjectId_valid [OF assms(2)])
next
  case (Some p)
  then show ?thesis
    using assms(1)
    by (simp add: updateProductStock_def updateStock_def view_def issue_def update_first_unique
          castObjectId_valid [OF assms(2)])
qed

lemma requested_Cons:
  "requested (l # ls) i = (if hexString (productId l) = i then quantity l else 0) + requested ls i"
  by (simp add: requested_def)

lemma requested_Nil: "requested [] i = 0"
  by (simp add: requested_def)

lemma decreaseStock_session:
  assumes "distinct (map doc_id (products t))"
      and "list_all (\<lambda>l. isValid (productId l)) ls"
  shows "decreaseStock ls session \<lparr>durable = d, txn = Some t, journal = j\<rparr>
           = Resolved () \<lparr>durable = d,
               txn = Some (t\<lparr>products :=
                 map (\<lambda>p. p\<lparr>stock := stock p - requested ls (doc_id p)\<rparr>) (products t)\<rparr>),
               journal = j\<rparr>"
  using assms
proof (induction ls arbitrary: t)
  case Nil
  then show ?case by (simp add: requested_Nil)
next
  case (Cons l ls)
  let ?t1 = "t\<lparr>products := map (\<lambda>p. if doc_id p = hexString (productId l)
                 then p\<lparr>stock := stock p + (- quantity l)\<rparr> else p) (products t)\<rparr>"
  have vl: "isValid (productId l)" and vls: "list_all (\<lambda>l. isValid (productId l)) ls"
    using Cons.prems(2) by simp_all
  obtain r where step: "updateProductStock (productId l) (- quantity l) (Some session)
                          \<lparr>durable = d, txn = Some t, journal = j\<rparr>
                        = Resolved r \<lparr>durable = d, txn = Some ?t1, journal = j\<rparr>"
    using updateProductStock_session [OF Cons.prems(1) vl] by blast
  have ids: "map doc_id (products ?t1) = map doc_id (products t)"
    by (simp add: comp_def if_distrib cong: if_cong)
  have d1: "distinct (map doc_id (products ?t1))"
    using Cons.prems(1) by (simp only: ids)
  have "decreaseStock (l # ls) session \<lparr>durable = d, txn = Some t, journal = j\<rparr>
          = decreaseStock ls session \<lparr>durable = d, txn = Some ?t1, journal = j\<rparr>"
    by (simp add: step)
  also have "\<dots> = Resolved () \<lparr>durable = d,
               txn = Some (?t1\<lparr>products :=
                 map (\<lambda>p. p\<lparr>stock := stock p - requested ls (doc_id p)\<rparr>) (products ?t1)\<rparr>),
               journal = j\<rparr>"
    by (rule Cons.IH [OF d1 vls])
  also have "map (\<lambda>p. p\<lparr>stock := stock p - requested ls (doc_id p)\<rparr>) (products ?t1)
           = map (\<lambda>p. p\<lparr>stock := stock p - requested (l # ls) (doc_id p)\<rparr>) (products t)"
    by (simp add: requested_Cons comp_def)
  finally show ?case by simp
qed

lemma validateStock_None_iff:
  "validateStock m ls = None
     \<longleftrightarrow> (\<forall>l\<in>set ls. \<exists>p. m (productId l) = Some p \<and> quantity l \<le> stock p)"
  by (induction ls) (auto split: option.splits)

lemma validateStock_Some:
  assumes "\<forall>l\<in>set ls. m (productId l) \<noteq> None"
      and "validateStock m ls = Some e"
  shows "\<exists>msg. e = ValidationError msg"
  using assms by (induction ls) (auto split: option.splits if_splits)

lemma orderItems_of_found:
  assumes "\<forall>l\<in>set ls. m (productId l) \<noteq> None"
  shows "\<exists>ois. orderItems_of m ls = Inr ois"
  using assms by (induction ls) (auto split: option.splits sum.splits)

lemma orderItems_of_Inr:
  assumes "orderItems_of m ls = Inr ois"
  shows "list_all2 (\<lambda>l oi. productId oi = productId l \<and> quantity oi = quantity l
                        \<and> map_option price (m (productId l)) = Some (unitPrice oi)) ls ois"
  using assms
  by (induction ls arbitrary: ois) (auto split: option.splits sum.splits)

lemma orderItems_of_ids:
  assumes "orderItems_of m ls = Inr ois"
  shows "map productId ois = map productId ls"
  using assms
  by (induction ls arbitrary: ois) (auto split: option.splits sum.splits)

text \<open>The item of the stored order for an item of \<open>CreateOrderItemDto\<close>.\<close>

lemma itemDocuments_valid:
  assumes "list_all (\<lambda>oi. isValid (productId oi)) ois"
  shows "itemDocuments ois
           = Inr (map (\<lambda>oi. \<lparr>productId = ObjectId (hexString (productId oi)),
                              quantity = quantity oi, unitPrice = unitPrice oi\<rparr>) ois)"
  using assms by (induction ois) (simp_all add: new_ObjectId_valid)

lemma create_transaction:
  assumes u: "distinct (map doc_id (products (durable db)))"
      and v: "list_all (\<lambda>l. isValid (productId l)) ls"
      and vo: "list_all (\<lambda>oi. isValid (productId oi)) ois"
  shows "withTransaction
           (\<lambda>session dbt.
              case OrderRepository_create fl newId uId ois (Some session) dbt of
                Rejected e dbt' \<Rightarrow> Rejected e dbt'
              | Resolved ord dbt' \<Rightarrow>
                  (case decreaseStock ls session dbt' of
                     Rejected e dbt'' \<Rightarrow> Rejected e dbt''
                   | Resolved _ dbt'' \<Rightarrow>
                       Resolved \<lparr>order = Some ord, message = ''Order created successfully''\<rparr> dbt''))
           db
         = (if \<not> isValid uId
            then Rejected (BSONError ''input must be a 24 character hex string, 12 byte Uint8Array, or an integer'')
                   \<lparr>durable = durable db, txn = None, journal = journal db\<rparr>
            else
              let ord = \<lparr>doc_id = newId, userId = ObjectId (hexString uId),
                         items = map (\<lambda>oi. \<lparr>productId = ObjectId (hexString (productId oi)),
                                              quantity = quantity oi, unitPrice = unitPrice oi\<rparr>) ois,
                         total_cents =
                           foldl (\<lambda>sum item. fl (sum + fl (of_int (quantity item) * unitPrice item)))
                             0 ois,
                         status = created\<rparr>;
                  after = (durable db)
                           \<lparr>orders := orders (durable db) @ [ord],
                            products := map (\<lambda>p. p\<lparr>stock := stock p - requested ls (doc_id p)\<rparr>)
                                          (products (durable db))\<rparr>
              in if \<not> orderSchemaValid ord
                 then Rejected (MongooseValidationError ''Order validation failed'')
                        \<lparr>durable = durable db, txn = None, journal = journal db\<rparr>
                 else if newId \<in> set (map doc_id (orders (durable db)))
                 then Rejected (MongoServerError ''E11000 duplicate key error'')
                        \<lparr>durable = durable db, txn = None, journal = journal db\<rparr>
                 else Resolved \<lparr>order = Some ord, message = ''Order created successfully''\<rparr>
                        \<lparr>durable = after, txn = None, journal = journal db @ [after]\<rparr>)"
proof -
  have dec: "decreaseStock ls ClientSession
               \<lparr>durable = durable db, txn = Some ((durable db)\<lparr>orders := os\<rparr>), journal = journal db\<rparr>
           = Resolved () \<lparr>durable = durable db,
               txn = Some ((durable db)\<lparr>orders := os,
                    products := map (\<lambda>p. p\<lparr>stock := stock p - requested ls (doc_id p)\<rparr>)
                                  (products (durable db))\<rparr>),
               journal = journal db\<rparr>" for os
    using decreaseStock_session [of "(durable db)\<lparr>orders := os\<rparr>" ls ClientSession
        "durable db" "journal db"] u v
    by simp
  show ?thesis
    by (simp add: withTransaction_unfold startTransaction_eq OrderRepository_create_def save_def
          Let_def view_def issue_def dec new_ObjectId_def itemDocuments_valid [OF vo])
qed

lemma validateStock_cong:
  "(\<And>l. l \<in> set ls \<Longrightarrow> m (productId l) = m' (productId l)) \<Longrightarrow>
   validateStock m ls = validateStock m' ls"
  by (induction ls) (auto split: option.splits)

lemma orderItems_of_cong:
  "(\<And>l. l \<in> set ls \<Longrightarrow> m (productId l) = m' (productId l)) \<Longrightarrow>
   orderItems_of m ls = orderItems_of m' ls"
  by (induction ls) (auto split: option.splits sum.splits)

text \<open>A string of the request is a key of the product map only if it is in printed form.\<close>

lemma printed_in_requested:
  assumes "l \<in> set ls"
  shows "productId l \<in> set (map (\<lambda>l. hexString (productId l)) ls)
           \<longleftrightarrow> hexString (productId l) = productId l"
proof
  assume "productId l \<in> set (map (\<lambda>l. hexString (productId l)) ls)"
  then have "productId l \<in> hexString ` set (map productId ls)" by auto
  then obtain s where "productId l = hexString s" by (rule imageE)
  then show "hexString (productId l) = productId l"
    by (simp add: hexString_idem)
next
  assume "hexString (productId l) = productId l"
  then have "productId l = hexString (productId l)" by simp
  with assms show "productId l \<in> set (map (\<lambda>l. hexString (productId l)) ls)"
    by (metis (mono_tags, lifting) image_eqI list.set_map)
qed

lemma createOrder_closed_form:
  assumes "uniqueIds (products (durable db))"
  shows "createOrder fl newId uId ls db =
     (if ls = [] then Rejected (ValidationError ''Order must contain at least one item'') db
      else if list_ex (\<lambda>l. quantity l \<le> 0) ls
      then Rejected (ValidationError ''Quantity must be greater than 0'') db
      else if \<not> list_all (\<lambda>l. isValid (productId l)) ls
      then Rejected (BSONError ''input must be a 24 character hex string, 12 byte Uint8Array, or an integer'') db
      else if \<not> (distinct (map (\<lambda>l. hexString (productId l)) ls)
                 \<and> set (map (\<lambda>l. hexString (productId l)) ls)
                      \<subseteq> set (map doc_id (products (durable db))))
      then Rejected (ValidationError (''Products not found: ''
             @ join '', ''
                 (filter (\<lambda>i. i \<notin> set (map doc_id
                     (filter (\<lambda>p. doc_id p \<in> set (map hexString (map productId ls)))
                        (products (durable db)))))
                   (map productId ls)))) db
      else case validateStock
                  (\<lambda>i. if hexString i = i then catalogue db i else None) ls of
             Some e \<Rightarrow> Rejected e db
           | None \<Rightarrow>
              (case orderItems_of
                      (\<lambda>i. if hexString i = i then catalogue db i else None) ls of
                 Inl e \<Rightarrow> Rejected e db
               | Inr ois \<Rightarrow>
                  (if \<not> isValid uId
                   then Rejected (BSONError ''input must be a 24 character hex string, 12 byte Uint8Array, or an integer'')
                          \<lparr>durable = durable db, txn = None, journal = journal db\<rparr>
                   else
                     let ord = \<lparr>doc_id = newId, userId = ObjectId (hexString uId),
                                items = map (\<lambda>oi. \<lparr>productId = ObjectId (hexString (productId oi)),
                                                     quantity = quantity oi,
                                                     unitPrice = unitPrice oi\<rparr>) ois,
                                total_cents =
                                  foldl (\<lambda>sum item. fl (sum + fl (of_int (quantity item)
                                                                    * unitPrice item))) 0 ois,
                                status = created\<rparr>;
                         after = (durable db)
                                  \<lparr>orders := orders (durable db) @ [ord],
                                   products := map (\<lambda>p. p\<lparr>stock := stock p
                                                                - requested ls (doc_id p)\<rparr>)
                                                 (products (durable db))\<rparr>
                     in if \<not> orderSchemaValid ord
                        then Rejected (MongooseValidationError ''Order validation failed'')
                               \<lparr>durable = durable db, txn = None, journal = journal db\<rparr>
                        else if newId \<in> set (map doc_id (orders (durable db)))
                        then Rejected (MongoServerError ''E11000 duplicate key error'')
                               \<lparr>durable = durable db, txn = None, journal = journal db\<rparr>
                        else Resolved \<lparr>order = Some ord,
                                       message = ''Order created successfully''\<rparr>
                               \<lparr>durable = after, txn = None,
                                journal = journal db @ [after]\<rparr>)))"
proof -
  let ?ps = "products (durable db)"
  let ?oids = "map (\<lambda>l. hexString (productId l)) ls"
  let ?F = "filter (\<lambda>p. doc_id p \<in> set ?oids) ?ps"
  let ?M = "\<lambda>i. if hexString i = i then catalogue db i else None"
  have u: "distinct (map doc_id ?ps)"
    using assms by (simp add: uniqueIds_def)
  have len: "(length ?F \<noteq> length ls)
               \<longleftrightarrow> \<not> (distinct ?oids \<and> set ?oids \<subseteq> set (map doc_id ?ps))"
    using found_all_ids [OF u, of ?oids] found_all_ids_conv [OF u, of ?oids] by auto
  have m: "productMap_of ?F (productId l) = ?M (productId l)" if "l \<in> set ls" for l
    using printed_in_requested [OF that] by (simp only: productMap_of_unique [OF u])
  have vs: "validateStock (productMap_of ?F) ls = validateStock ?M ls"
    by (rule validateStock_cong) (rule m)
  have oi: "orderItems_of (productMap_of ?F) ls = orderItems_of ?M ls"
    by (rule orderItems_of_cong) (rule m)
  have oids: "map hexString (map productId ls) = ?oids" by simp
  have valid: "list_all isValid (map productId ls) = list_all (\<lambda>l. isValid (productId l)) ls"
    by (simp add: list_all_iff)
  show ?thesis
  proof (cases "ls = [] \<or> list_ex (\<lambda>l. quantity l \<le> 0) ls
                 \<or> \<not> list_all (\<lambda>l. isValid (productId l)) ls
                 \<or> \<not> (distinct ?oids \<and> set ?oids \<subseteq> set (map doc_id ?ps))")
    case True
    then show ?thesis
      unfolding createOrder_def getProductsByIds_def findByIds_def Let_def objectIds_eq valid
      using len by (auto simp add: oids simp del: set_map map_map)
  next
    case False
    then have pre: "ls \<noteq> []" "\<not> list_ex (\<lambda>l. quantity l \<le> 0) ls"
        "list_all (\<lambda>l. isValid (productId l)) ls"
        "distinct ?oids \<and> set ?oids \<subseteq> set (map doc_id ?ps)"
      by auto
    have lenF: "length ?F = length ls"
      using len pre(4) by blast
    have head: "createOrder fl newId uId ls db =
        (case validateStock ?M ls of
           Some e \<Rightarrow> Rejected e db
         | None \<Rightarrow>
            (case orderItems_of ?M ls of
               Inl e \<Rightarrow> Rejected e db
             | Inr ois \<Rightarrow>
                 withTransaction
                   (\<lambda>session dbt.
                      case OrderRepository_create fl newId uId ois (Some session) dbt of
                        Rejected e dbt' \<Rightarrow> Rejected e dbt'
                      | Resolved ord dbt' \<Rightarrow>
                          (case decreaseStock ls session dbt' of
                             Rejected e dbt'' \<Rightarrow> Rejected e dbt''
                           | Resolved _ dbt'' \<Rightarrow>
                               Resolved \<lparr>order = Some ord,
                                         message = ''Order created successfully''\<rparr> dbt''))
                   db))"
      unfolding createOrder_def getProductsByIds_def findByIds_def Let_def objectIds_eq valid
      using pre(1-3) lenF
      by (simp add: oids vs oi del: set_map map_map cong: option.case_cong)
    show ?thesis
    proof (cases "validateStock ?M ls")
      case (Some e)
      then show ?thesis using pre head by simp
    next
      case None
      show ?thesis
      proof (cases "orderItems_of ?M ls")
        case (Inl e)
        then show ?thesis using pre head None by simp
      next
        case (Inr ois)
        have "map productId ois = map productId ls"
          using Inr by (rule orderItems_of_ids)
        then have "list_all isValid (map productId ois)"
          using pre(3) valid by simp
        then have vo: "list_all (\<lambda>oi. isValid (productId oi)) ois"
          by (simp add: list_all_iff)
        show ?thesis
          using pre None Inr
          by (simp add: head create_transaction [OF u pre(3) vo])
      qed
    qed
  qed
qed

lemma requested_distinct:
  assumes "distinct (map (\<lambda>l. hexString (productId l)) ls)"
  shows "requested ls i
           = (case find (\<lambda>l. hexString (productId l) = i) ls of None \<Rightarrow> 0 | Some l \<Rightarrow> quantity l)"
  using assms
proof (induction ls)
  case Nil
  then show ?case by (simp add: requested_Nil)
next
  case (Cons l ls)
  have "requested ls i = 0" if "hexString (productId l) = i"
  proof -
    have "filter (\<lambda>l. hexString (productId l) = i) ls = []"
      using Cons.prems that by (auto simp add: filter_empty_conv image_iff)
    then show ?thesis by (simp add: requested_def)
  qed
  with Cons show ?case by (simp add: requested_Cons)
qed

lemma requested_within_stock:
  assumes u: "distinct (map doc_id ps)"
      and d: "distinct (map (\<lambda>l. hexString (productId l)) ls)"
      and v: "validateStock (\<lambda>i. if hexString i = i then find (\<lambda>p. doc_id p = i) ps else None) ls
                = None"
      and s: "0 \<le> stock p" and p: "p \<in> set ps"
  shows "requested ls (doc_id p) \<le> stock p"
proof (cases "find (\<lambda>l. hexString (productId l) = doc_id p) ls")
  case None
  then show ?thesis using s by (simp add: requested_distinct [OF d])
next
  case (Some l)
  then have l: "l \<in> set ls" "hexString (productId l) = doc_id p"
    by (auto dest: find_SomeD)
  from v l(1) obtain p' where p': "(if hexString (productId l) = productId l
         then find (\<lambda>p. doc_id p = productId l) ps else None) = Some p'" "quantity l \<le> stock p'"
    unfolding validateStock_None_iff by blast
  then have printed: "hexString (productId l) = productId l"
    by (auto split: if_splits)
  with p'(1) l(2) have "find (\<lambda>q. doc_id q = doc_id p) ps = Some p'"
    by simp
  moreover have "find (\<lambda>q. doc_id q = doc_id p) ps = Some p"
    using u p by (rule find_unique_key)
  ultimately have "p' = p" by simp
  with p'(2) Some show ?thesis by (simp add: requested_distinct [OF d])
qed

lemma createOrder_invariant:
  assumes inv: "stockInvariant (durable db)"
  shows "stockInvariant (durable (db_after (createOrder fl newId uId ls db)))"
proof -
  let ?ps = "products (durable db)"
  have u: "uniqueIds ?ps"
    and sn: "\<forall>p\<in>set ?ps. 0 \<le> stock p"
    using inv by (simp_all add: stockInvariant_def stockNonNegative_def list_all_iff)
  have ud: "distinct (map doc_id ?ps)"
    using u by (simp add: uniqueIds_def)
  show ?thesis
  proof (cases "createOrder fl newId uId ls db")
    case (Rejected e db')
    then have "durable db' = durable db"
      by (auto simp add: createOrder_closed_form [OF u] Let_def
            split: if_splits option.splits sum.splits simp del: set_map)
    with Rejected inv show ?thesis by simp
  next
    case (Resolved r db')
    from Resolved obtain ord where
          d: "distinct (map (\<lambda>l. hexString (productId l)) ls)"
      and v: "validateStock (\<lambda>i. if hexString i = i then catalogue db i else None) ls = None"
      and db': "durable db' = (durable db)
                    \<lparr>orders := orders (durable db) @ [ord],
                     products := map (\<lambda>p. p\<lparr>stock := stock p - requested ls (doc_id p)\<rparr>) ?ps\<rparr>"
      by (auto simp add: createOrder_closed_form [OF u] Let_def
            split: if_splits option.splits sum.splits simp del: set_map)
    have "0 \<le> stock p - requested ls (doc_id p)" if "p \<in> set ?ps" for p
      using requested_within_stock [OF ud d v _ that] sn that by simp
    then have "stockNonNegative (durable db')"
      by (simp add: db' stockNonNegative_def list_all_iff)
    moreover have "uniqueIds (products (durable db'))"
      using ud by (simp add: db' uniqueIds_def comp_def)
    ultimately show ?thesis
      using Resolved by (simp add: stockInvariant_def)
  qed
qed

lemma payOrder_products:
  "products (durable (db_after (payOrder orderId uId isAdmin db))) = products (durable db)"
  by (auto simp add: payOrder_def findById_def updateStatus_def view_def issue_def
        write_durable_def split: option.splits sum.splits)

lemma restoreStock_populated:
  assumes "its \<noteq> []"
  shows "\<exists>e. restoreStock
               (map (\<lambda>item. item\<lparr>productId := populate_ref coll (productId item)\<rparr>) its)
               session db
             = Rejected e db"
proof (cases its)
  case Nil
  with assms show ?thesis by simp
next
  case (Cons item rest)
  show ?thesis
  proof (cases "populate_ref coll (productId item)")
    case (ObjectId i)
    then show ?thesis by (simp add: populate_ref_not_ObjectId)
  next
    case (Populated d)
    then show ?thesis
      using Cons inspect_not_valid [of d]
      by (simp add: updateProductStock_def updateStock_def castObjectId_def)
  next
    case Null
    then show ?thesis using Cons by simp
  qed
qed

lemma cancelOrder_products:
  "products (durable (db_after (cancelOrder orderId uId isAdmin db))) = products (durable db)"
proof (cases "castObjectId orderId")
  case (Inl e)
  then show ?thesis by (simp add: cancelOrder_def findById_def)
next
  case (Inr i)
  show ?thesis
  proof (cases "find (\<lambda>ord. doc_id ord = i) (orders (durable db))")
    case None
    then show ?thesis using Inr by (simp add: cancelOrder_def findById_def)
  next
    case (Some ord0)
    let ?ord = "populate (durable db) ord0"
    let ?work = "\<lambda>session dbt.
                     case updateStatus orderId cancelled (Some session) dbt of
                       Rejected e dbt' \<Rightarrow> Rejected e dbt'
                     | Resolved updatedOrder dbt' \<Rightarrow>
                         (case restoreStock (items ?ord) session dbt' of
                            Rejected e dbt'' \<Rightarrow> Rejected e dbt''
                          | Resolved _ dbt'' \<Rightarrow>
                              Resolved \<lparr>order = updatedOrder,
                                        message = ''Order cancelled successfully''\<rparr> dbt'')"
    have items: "items ?ord
                   = map (\<lambda>item. item\<lparr>productId := populate_ref (products (durable db)) (productId item)\<rparr>)
                       (items ord0)"
      by (simp add: populate_def)
    have txn: "products (durable (db_after (withTransaction ?work db))) = products (durable db)"
    proof (cases "items ord0 = []")
      case True
      then show ?thesis
        using Inr Some
        by (simp add: withTransaction_unfold startTransaction_eq updateStatus_def view_def
              issue_def items)
    next
      case False
      have "\<exists>e. restoreStock (items ?ord) ClientSession dbt = Rejected e dbt" for dbt
        unfolding items using False by (rule restoreStock_populated)
      then obtain e where
        "restoreStock (items ?ord) ClientSession dbt = Rejected (e dbt) dbt" for dbt
        by metis
      then show ?thesis
        using Inr Some
        by (simp add: withTransaction_unfold startTransaction_eq updateStatus_def view_def
              issue_def)
    qed
    show ?thesis
      using Inr Some txn
      by (auto simp add: cancelOrder_def findById_def split: sum.splits)
  qed
qed

lemma perform_invariant:
  assumes "stockInvariant (durable db)"
  shows "stockInvariant (durable (perform fl op db))"
proof (cases op)
  case (Create newId uId ls)
  then show ?thesis using assms by (simp add: createOrder_invariant)
next
  case (Pay orderId uId isAdmin)
  then show ?thesis using assms
    by (simp add: stockInvariant_def stockNonNegative_def payOrder_products)
next
  case (Cancel orderId uId isAdmin)
  then show ?thesis using assms
    by (simp add: stockInvariant_def stockNonNegative_def cancelOrder_products)
qed

lemma fold_perform_invariant:
  "stockInvariant (durable db) \<Longrightarrow> stockInvariant (durable (fold (perform fl) ops db))"
  by (induction ops arbitrary: db) (simp_all add: perform_invariant)

lemma exact_nonneg_integer:
  assumes "exactOnSafeIntegers fl" and "x \<in> \<int>" and "0 \<le> x" and "x \<le> 2 ^ 53"
  shows "fl x = x"
proof -
  from assms(2) obtain n :: int where n: "x = of_int n" by (rule Ints_cases)
  have "(of_int n :: rat) \<le> of_int (2 ^ 53)"
    using assms(4) n by simp
  then have "n \<le> 2 ^ 53" by (simp only: of_int_le_iff)
  moreover have "0 \<le> n" using assms(3) n by simp
  ultimately have "\<bar>n\<bar> \<le> 2 ^ 53" by simp
  with assms(1) n show ?thesis by (simp add: exactOnSafeIntegers_def)
qed

lemma foldl_total_exact:
  assumes fl: "exactOnSafeIntegers fl"
      and items: "\<forall>oi\<in>set ois. 0 \<le> quantity oi \<and> 0 \<le> unitPrice oi \<and> unitPrice oi \<in> \<int>"
      and a: "a \<in> \<int>" "0 \<le> a"
      and bound: "a + (\<Sum>oi\<leftarrow>ois. of_int (quantity oi) * unitPrice oi) \<le> 2 ^ 53"
  shows "foldl (\<lambda>sum item. fl (sum + fl (of_int (quantity item) * unitPrice item))) a ois
           = a + (\<Sum>oi\<leftarrow>ois. of_int (quantity oi) * unitPrice oi)"
  using items a bound
proof (induction ois arbitrary: a)
  case Nil
  then show ?case by simp
next
  case (Cons oi ois)
  let ?t = "of_int (quantity oi) * unitPrice oi :: rat"
  let ?rest = "\<Sum>oi\<leftarrow>ois. of_int (quantity oi) * unitPrice oi :: rat"
  have t: "?t \<in> \<int>" "0 \<le> ?t"
    using Cons.prems(1) by simp_all
  have rest: "0 \<le> ?rest"
  proof (rule sum_list_nonneg)
    fix x assume "x \<in> set (map (\<lambda>oi. of_int (quantity oi) * unitPrice oi) ois)"
    then obtain o' where "o' \<in> set ois" "x = of_int (quantity o') * unitPrice o'" by auto
    with Cons.prems(1) show "0 \<le> x" by simp
  qed
  have le: "a + ?t + ?rest \<le> 2 ^ 53"
    using Cons.prems(4) by (simp add: add.assoc)
  have "?t \<le> 2 ^ 53" using le rest Cons.prems(3) by linarith
  then have ft: "fl ?t = ?t"
    using fl t by (intro exact_nonneg_integer)
  have at: "a + ?t \<in> \<int>" "0 \<le> a + ?t" "a + ?t \<le> 2 ^ 53"
    using Cons.prems(2,3) t le rest by (simp_all add: Ints_add)
  then have fat: "fl (a + ?t) = a + ?t"
    using fl by (intro exact_nonneg_integer)
  have "foldl (\<lambda>sum item. fl (sum + fl (of_int (quantity item) * unitPrice item))) (a + ?t) ois
          = (a + ?t) + ?rest"
    using Cons.prems(1) at le by (intro Cons.IH) simp_all
  then show ?case
    by (simp add: ft fat add.assoc)
qed

lemma list_all2_lines:
  assumes "list_all2 (\<lambda>l oi. productId oi = productId l \<and> quantity oi = quantity l \<and> R l oi) ls ois"
  shows "map productId ois = map productId ls \<and> map quantity ois = map quantity ls"
  using assms by (induction rule: list_all2_induct) auto

section \<open>Facts about the data of the examples\<close>

lemma shop_uniqueIds: "uniqueIds (products (durable shop))"
  by (simp add: uniqueIds_def shop_def shop_store_def item_A_def item_B_def id_A_def id_B_def)

lemma shop_stockNonNegative: "stockNonNegative (durable shop)"
  by (simp add: stockNonNegative_def shop_def shop_store_def item_A_def item_B_def)

lemma id_Z_valid: "isValid id_Z" "hexString id_Z = id_Z"
  by (simp_all add: id_Z_def isValid_def isHexDigit_def hexString_def lowerHex_def)

lemma create_three_of_A:
  "createOrder (\<lambda>x. x) id_O9 id_U1 three_of_A shop
     = Resolved \<lparr>order = Some (order_of id_O9 id_U1 created),
                 message = ''Order created successfully''\<rparr>
         \<lparr>durable = store_after_O9, txn = None, journal = [store_after_O9]\<rparr>"
  by code_simp



lemma upper_A_names_item_A:
  "isValid upper_A \<and> hexString upper_A = doc_id item_A
   \<and> findByIds [upper_A] shop = Resolved [item_A] shop"
  by code_simp

section \<open>Facts about the failures of createOrder\<close>

lemma foldl_total_nonneg:
  assumes "roundsNonNegative fl"
      and "\<forall>oi\<in>set ois. 0 \<le> quantity oi \<and> 0 \<le> unitPrice oi"
      and "0 \<le> a"
  shows "0 \<le> foldl (\<lambda>sum item. fl (sum + fl (of_int (quantity item) * unitPrice item))) a ois"
  using assms(2,3)
proof (induction ois arbitrary: a)
  case Nil
  then show ?case by simp
next
  case (Cons oi ois)
  have "0 \<le> fl (of_int (quantity oi) * unitPrice oi)"
    using assms(1) Cons.prems(1) by (simp add: roundsNonNegative_def)
  then have "0 \<le> fl (a + fl (of_int (quantity oi) * unitPrice oi))"
    using assms(1) Cons.prems(2) by (simp add: roundsNonNegative_def)
  then show ?case
    using Cons.prems(1) by (simp add: Cons.IH)
qed

lemma all_found:
  assumes "set (map productId ls) \<subseteq> set (map doc_id (products (durable db)))"
  shows "\<forall>l\<in>set ls. catalogue db (productId l) \<noteq> None"
proof
  fix l assume "l \<in> set ls"
  then have "productId l \<in> set (map doc_id (products (durable db)))"
    using assms by auto
  then show "catalogue db (productId l) \<noteq> None"
    using find_None_iff_ids by blast
qed

lemma unknown_iff:
  "list_ex (\<lambda>l. catalogue db (productId l) = None) ls
     \<longleftrightarrow> \<not> set (map productId ls) \<subseteq> set (map doc_id (products (durable db)))"
  by (auto simp add: list_ex_iff find_None_iff_ids)

text \<open>
  For a request whose identities are all written as they are printed, \<open>createOrder\<close> fails
  exactly when the list is empty, a quantity is not positive, an item is unknown, an item
  occurs in two lines, or a line asks for more than the stock of its item; and every
  failure is a \<open>ValidationError\<close> raised before the transaction, with the database exactly
  as it was. The database is assumed to have unique product identities and prices of at
  least 0, the new identity to be new and the caller's identity to be an identity.
\<close>

lemma createOrder_failure_printed_ids:
  assumes u: "uniqueIds (products (durable db))"
      and pv: "pricesValid (durable db)"
      and fresh: "newId \<notin> set (map doc_id (orders (durable db)))"
      and uid: "isValid uId"
      and printed: "list_all (\<lambda>l. isValid (productId l) \<and> hexString (productId l) = productId l) ls"
      and fl: "roundsNonNegative fl"
  shows "(isRejected (createOrder fl newId uId ls db) \<longleftrightarrow>
            ls = [] \<or> list_ex (\<lambda>l. quantity l \<le> 0) ls
            \<or> list_ex (\<lambda>l. catalogue db (productId l) = None) ls
            \<or> \<not> distinct (map productId ls)
            \<or> list_ex (\<lambda>l. \<exists>p. catalogue db (productId l) = Some p \<and> stock p < quantity l) ls)
       \<and> (\<forall>e db'. createOrder fl newId uId ls db = Rejected e db'
             \<longrightarrow> (\<exists>msg. e = ValidationError msg) \<and> db' = db)"
proof -
  let ?M = "\<lambda>i. if hexString i = i then catalogue db i else None"
  have valid: "list_all (\<lambda>l. isValid (productId l)) ls"
    using printed by (simp add: list_all_iff)
  have pr: "hexString (productId l) = productId l" if "l \<in> set ls" for l
    using printed that by (simp add: list_all_iff)
  have oids: "map (\<lambda>l. hexString (productId l)) ls = map productId ls"
    using pr by simp
  have vM: "validateStock ?M ls = validateStock (catalogue db) ls"
    by (rule validateStock_cong) (simp add: pr)
  have oM: "orderItems_of ?M ls = orderItems_of (catalogue db) ls"
    by (rule orderItems_of_cong) (simp add: pr)
  show ?thesis
  proof (cases "ls = [] \<or> list_ex (\<lambda>l. quantity l \<le> 0) ls
            \<or> \<not> (distinct (map productId ls)
                  \<and> set (map productId ls) \<subseteq> set (map doc_id (products (durable db))))")
    case True
    then show ?thesis
      using valid
      by (auto simp add: createOrder_closed_form [OF u] oids unknown_iff simp del: set_map)
  next
    case False
    then have pre: "ls \<noteq> []" "\<not> list_ex (\<lambda>l. quantity l \<le> 0) ls" "distinct (map productId ls)"
        "set (map productId ls) \<subseteq> set (map doc_id (products (durable db)))"
      by auto
    have found: "\<forall>l\<in>set ls. catalogue db (productId l) \<noteq> None"
      using pre(4) by (rule all_found)
    have known: "\<not> list_ex (\<lambda>l. catalogue db (productId l) = None) ls"
      using pre(4) by (simp only: unknown_iff not_not)
    show ?thesis
    proof (cases "validateStock (catalogue db) ls")
      case (Some e)
      then obtain msg where msg: "e = ValidationError msg"
        using validateStock_Some [OF found] by blast
      have short: "list_ex (\<lambda>l. \<exists>p. catalogue db (productId l) = Some p \<and> stock p < quantity l) ls"
      proof -
        have "validateStock (catalogue db) ls \<noteq> None"
          using Some by simp
        then obtain l where l: "l \<in> set ls"
            "\<not> (\<exists>p. catalogue db (productId l) = Some p \<and> quantity l \<le> stock p)"
          unfolding validateStock_None_iff by blast
        from found l(1) obtain p where p: "catalogue db (productId l) = Some p"
          by blast
        with l(2) have "stock p < quantity l"
          by simp
        with l(1) p show ?thesis
          unfolding list_ex_iff by blast
      qed
      have "createOrder fl newId uId ls db = Rejected e db"
        using pre Some valid
        by (simp add: createOrder_closed_form [OF u] oids vM del: set_map)
      with msg short show ?thesis by simp
    next
      case None
      then have enough: "\<not> list_ex (\<lambda>l. \<exists>p. catalogue db (productId l) = Some p
                                          \<and> stock p < quantity l) ls"
        by (auto simp add: validateStock_None_iff list_ex_iff)
      obtain ois where ois: "orderItems_of (catalogue db) ls = Inr ois"
        using orderItems_of_found [OF found] by blast
      let ?ord = "\<lparr>doc_id = newId, userId = ObjectId (hexString uId) :: IUser ref,
                   items = map (\<lambda>oi. \<lparr>productId = ObjectId (hexString (productId oi)) :: IProduct ref,
                                        quantity = quantity oi, unitPrice = unitPrice oi\<rparr>) ois,
                   total_cents =
                     foldl (\<lambda>sum item. fl (sum + fl (of_int (quantity item) * unitPrice item))) 0 ois,
                   status = created\<rparr>"
      have rel: "list_all2 (\<lambda>l oi. productId oi = productId l \<and> quantity oi = quantity l
                        \<and> map_option price (catalogue db (productId l)) = Some (unitPrice oi)) ls ois"
        using ois by (rule orderItems_of_Inr)
      have len: "length ois = length ls"
        using rel by (simp add: list_all2_lengthD)
      have each: "1 \<le> quantity oi \<and> 0 \<le> unitPrice oi" if "oi \<in> set ois" for oi
      proof -
        from that obtain i where i: "i < length ois" "ois ! i = oi"
          by (auto simp add: in_set_conv_nth)
        define l where "l = ls ! i"
        have l: "l \<in> set ls" "quantity oi = quantity l"
            "map_option price (catalogue db (productId l)) = Some (unitPrice oi)"
          using list_all2_nthD2 [OF rel i(1)] i len by (simp_all add: l_def)
        from l(3) obtain p where p: "catalogue db (productId l) = Some p" "unitPrice oi = price p"
          by auto
        from p(1) have "p \<in> set (products (durable db))"
          by (auto dest: find_SomeD)
        with pv have "0 \<le> price p"
          by (simp add: pricesValid_def list_all_iff)
        moreover have "0 < quantity l"
          using pre(2) l(1) by (auto simp add: list_ex_iff)
        ultimately show ?thesis using l(2) p(2) by simp
      qed
      have "0 \<le> foldl (\<lambda>sum item. fl (sum + fl (of_int (quantity item) * unitPrice item))) 0 ois"
      proof (rule foldl_total_nonneg [OF fl])
        show "\<forall>oi\<in>set ois. 0 \<le> quantity oi \<and> 0 \<le> unitPrice oi"
        proof
          fix oi assume "oi \<in> set ois"
          from each [OF this] show "0 \<le> quantity oi \<and> 0 \<le> unitPrice oi"
            by linarith
        qed
      qed simp
      then have schema: "orderSchemaValid ?ord"
        using pre(1) len each by (simp add: orderSchemaValid_def list_all_iff)
      have "\<not> isRejected (createOrder fl newId uId ls db)"
        "\<And>e db'. createOrder fl newId uId ls db \<noteq> Rejected e db'"
        using pre None ois schema fresh uid valid
        by (simp_all add: createOrder_closed_form [OF u] oids vM oM Let_def del: set_map)
      with pre known enough show ?thesis by simp
    qed
  qed
qed


section \<open>Facts about payOrder and cancelOrder\<close>

lemma findById_Some:
  assumes "findById orderId db = Resolved (Some ord) db'"
  obtains i ord0 where "castObjectId orderId = Inr i"
    and "find (\<lambda>od. doc_id od = i) (orders (durable db)) = Some ord0"
    and "ord = populate (durable db) ord0"
    and "db' = db"
proof (cases "castObjectId orderId")
  case (Inl e)
  with assms show ?thesis by (simp add: findById_def)
next
  case (Inr i)
  show ?thesis
  proof (cases "find (\<lambda>od. doc_id od = i) (orders (durable db))")
    case None
    with assms Inr show ?thesis by (simp add: findById_def)
  next
    case (Some ord0)
    with assms Inr have "ord = populate (durable db) ord0" and "db' = db"
      by (auto simp add: findById_def)
    with Inr Some that show ?thesis by blast
  qed
qed

lemma populate_status [simp]:
  "status (populate s ord) = status ord"
  "populate s (ord\<lparr>status := st\<rparr>) = (populate s ord)\<lparr>status := st\<rparr>"
  by (simp_all add: populate_def)

lemma populate_orders [simp]: "populate (s\<lparr>orders := os\<rparr>) ord = populate s ord"
  by (simp add: populate_def)

text \<open>What \<open>payOrder\<close> does for an admin.\<close>

lemma payOrder_idempotent_admin:
  assumes "findById orderId db = Resolved (Some ord) db"
      and "status ord \<noteq> cancelled"
  shows "(status ord = paid \<longrightarrow>
            payOrder orderId uId True db
              = Resolved \<lparr>order = Some ord, message = ''Order is already paid''\<rparr> db)
       \<and> (\<exists>ord1 msg db1.
            payOrder orderId uId True db = Resolved \<lparr>order = Some ord1, message = msg\<rparr> db1
          \<and> status ord1 = paid
          \<and> payOrder orderId uId True db1
              = Resolved \<lparr>order = Some ord1, message = ''Order is already paid''\<rparr> db1)"
proof -
  from assms(1) obtain i ord0 where i: "castObjectId orderId = Inr i"
    and f: "find (\<lambda>od. doc_id od = i) (orders (durable db)) = Some ord0"
    and ord: "ord = populate (durable db) ord0"
    by (rule findById_Some)
  show ?thesis
  proof (cases "status ord")
    case created
    then show ?thesis
      using assms i f ord
      by (auto simp add: payOrder_def accessDenied_def findById_def updateStatus_def view_def
            issue_def write_durable_def find_update_first)
  next
    case paid
    then show ?thesis
      using assms by (auto simp add: payOrder_def accessDenied_def)
  next
    case cancelled
    then show ?thesis using assms by simp
  qed
qed

lemma payOrder_cancelled_conflict_admin:
  assumes "findById orderId db = Resolved (Some ord) db"
      and "status ord = cancelled"
  shows "retry n (payOrder orderId uId True) db
           = replicate n (Rejected (ConflictError ''Cannot pay for a cancelled order'') db)"
proof -
  have one: "payOrder orderId uId True db
               = Rejected (ConflictError ''Cannot pay for a cancelled order'') db"
    using assms by (auto simp add: payOrder_def accessDenied_def)
  show ?thesis by (induction n) (simp_all add: one)
qed

text \<open>What the access check does for an actor who is not an admin: when the user document
  of the owner exists, the actor is refused, whoever the actor is; when it does not, the
  check raises.\<close>

lemma non_admin_refused:
  assumes "findById orderId db = Resolved (Some ord) db"
      and "userId ord = Populated owner"
      and "uId = None \<or> (\<exists>s. uId = Some s \<and> isValid s)"
  shows "payOrder orderId uId False db = Rejected (ApiError ''Access denied'' 403) db
       \<and> cancelOrder orderId uId False db = Rejected (ApiError ''Access denied'' 403) db"
proof -
  have "Some (inspect owner) \<noteq> uId"
    using assms(3) inspect_not_valid [of owner] by auto
  then show ?thesis
    using assms(1,2) by (simp add: payOrder_def cancelOrder_def accessDenied_def)
qed

lemma non_admin_missing_owner:
  assumes "findById orderId db = Resolved (Some ord) db"
      and "userId ord = Null"
  shows "payOrder orderId uId False db
           = Rejected (TypeError (cannotRead ''toString'' ''null'')) db
       \<and> cancelOrder orderId uId False db
           = Rejected (TypeError (cannotRead ''toString'' ''null'')) db"
  using assms by (simp add: payOrder_def cancelOrder_def accessDenied_def)

text \<open>What \<open>cancelOrder\<close> does for an order that is not cancelled and has an item: the
  call fails for every actor, and the durable store is never written.\<close>

lemma cancelOrder_open_order_fails:
  assumes "findById orderId db = Resolved (Some ord) db"
      and "status ord \<noteq> cancelled"
      and "items ord \<noteq> []"
  shows "\<exists>e db'. cancelOrder orderId uId isAdmin db = Rejected e db'
           \<and> durable db' = durable db \<and> journal db' = journal db"
proof -
  from assms(1) obtain i ord0 where i: "castObjectId orderId = Inr i"
    and f: "find (\<lambda>od. doc_id od = i) (orders (durable db)) = Some ord0"
    and ord: "ord = populate (durable db) ord0"
    by (rule findById_Some)
  have items: "items ord
                 = map (\<lambda>item. item\<lparr>productId := populate_ref (products (durable db)) (productId item)\<rparr>)
                     (items ord0)"
    by (simp add: ord populate_def)
  have ne: "items ord0 \<noteq> []"
    using assms(3) items by auto
  have "\<exists>e. restoreStock (items ord) ClientSession dbt = Rejected e dbt" for dbt
    unfolding items using ne by (rule restoreStock_populated)
  then obtain e where rs:
    "restoreStock (items ord) ClientSession dbt = Rejected (e dbt) dbt" for dbt
    by metis
  have st: "status ord = created \<or> status ord = paid"
    using assms(2) by (cases "status ord") simp_all
  show ?thesis
  proof (cases "accessDenied isAdmin ord uId")
    case (Inl err)
    then show ?thesis using assms(1) by (simp add: cancelOrder_def)
  next
    case (Inr denied)
    then show ?thesis
      using assms(1,2) st i f rs
      by (auto simp add: cancelOrder_def withTransaction_unfold startTransaction_eq
            updateStatus_def view_def issue_def)
  qed
qed

section \<open>Creating an order\<close>

text \<open>
  C1. Let the products of the database have unique identities. Whenever \<open>createOrder\<close>
  succeeds, it returns the order it stored, and:

  \<^item> the order has one item for each line of the request, in the same order, with the
    identity and the quantity of the line and, as unit price, the price that the catalogue
    had for that item before the call;
  \<^item> the total of the order is the \<open>reduce\<close> of \<open>OrderRepositoryImpl.create\<close> over these
    items, the sum of quantity times unit price in the arithmetic of doubles; when the unit
    prices are integers and the exact sum is at most \<open>2 ^ 53\<close>, it is that sum;
  \<^item> the durable store after the call is the one before it with the order added and the
    stock of every product lowered by the total quantity that the request asks of it,
    and nothing else changed;
  \<^item> the order and all the stock updates reach the durable store in one step: the call
    adds exactly one entry to the journal, the store with all of them, and leaves no
    transaction open. No reader of the database can see the order without the stock
    updates, or some of them.

  Whenever \<open>createOrder\<close> fails, the durable store and the journal are as before the call.
\<close>

theorem createOrder_success:
  assumes "uniqueIds (products (durable db))"
  shows "(\<forall>r db'. createOrder fl newId uId ls db = Resolved r db' \<longrightarrow>
            (\<exists>ord. r = \<lparr>order = Some ord, message = ''Order created successfully''\<rparr>
               \<and> doc_id ord = newId \<and> userId ord = ObjectId (hexString uId)
               \<and> status ord = created
               \<and> list_all2 (\<lambda>l oi. productId oi = ObjectId (productId l)
                     \<and> quantity oi = quantity l
                     \<and> map_option price (catalogue db (productId l)) = Some (unitPrice oi))
                   ls (items ord)
               \<and> total_cents ord
                   = foldl (\<lambda>sum oi. fl (sum + fl (of_int (quantity oi) * unitPrice oi)))
                       0 (items ord)
               \<and> (exactOnSafeIntegers fl \<and> (\<forall>oi\<in>set (items ord). unitPrice oi \<in> \<int>)
                    \<and> (\<Sum>oi\<leftarrow>items ord. of_int (quantity oi) * unitPrice oi) \<le> 2 ^ 53
                  \<longrightarrow> total_cents ord = (\<Sum>oi\<leftarrow>items ord. of_int (quantity oi) * unitPrice oi))
               \<and> durable db'
                   = (durable db)
                       \<lparr>orders := orders (durable db) @ [ord],
                        products := map (\<lambda>p. p\<lparr>stock := stock p - requested ls (doc_id p)\<rparr>)
                                      (products (durable db))\<rparr>
               \<and> txn db' = None
               \<and> journal db' = journal db @ [durable db']))
       \<and> (\<forall>e db'. createOrder fl newId uId ls db = Rejected e db'
             \<longrightarrow> durable db' = durable db \<and> journal db' = journal db)"
proof (intro conjI allI impI)
  fix r db'
  assume ok: "createOrder fl newId uId ls db = Resolved r db'"
  let ?M = "\<lambda>i. if hexString i = i then catalogue db i else None"
  let ?doc = "\<lambda>oi :: CreateOrderItemDto.
                \<lparr>productId = ObjectId (hexString (productId oi)) :: IProduct ref,
                 quantity = quantity oi, unitPrice = unitPrice oi\<rparr>"
  let ?ord = "\<lambda>ois. \<lparr>doc_id = newId, userId = ObjectId (hexString uId),
           items = map ?doc ois,
           total_cents = foldl (\<lambda>sum item. fl (sum + fl (of_int (quantity item) * unitPrice item)))
                           0 ois,
           status = created\<rparr>"
  let ?after = "\<lambda>ois. (durable db)
                       \<lparr>orders := orders (durable db) @ [?ord ois],
                        products := map (\<lambda>p. p\<lparr>stock := stock p - requested ls (doc_id p)\<rparr>)
                                      (products (durable db))\<rparr>"
  from ok obtain ois where ois: "orderItems_of ?M ls = Inr ois"
    and valid: "orderSchemaValid (?ord ois)"
    and r: "r = \<lparr>order = Some (?ord ois), message = ''Order created successfully''\<rparr>"
    and db': "db' = \<lparr>durable = ?after ois, txn = None, journal = journal db @ [?after ois]\<rparr>"
    by (auto simp add: createOrder_closed_form [OF assms] Let_def
          split: if_splits option.splits sum.splits simp del: set_map)
  have "list_all2 (\<lambda>l oi. productId oi = productId l \<and> quantity oi = quantity l
                        \<and> map_option price (?M (productId l)) = Some (unitPrice oi)) ls ois"
    using ois by (rule orderItems_of_Inr)
  then have "list_all2 (\<lambda>l oi. productId (?doc oi) = ObjectId (productId l)
                     \<and> quantity (?doc oi) = quantity l
                     \<and> map_option price (catalogue db (productId l)) = Some (unitPrice (?doc oi)))
                   ls ois"
    by (rule list_all2_mono) (auto split: if_splits)
  then have rel: "list_all2 (\<lambda>l oi. productId oi = ObjectId (productId l)
                     \<and> quantity oi = quantity l
                     \<and> map_option price (catalogue db (productId l)) = Some (unitPrice oi))
                   ls (items (?ord ois))"
    by (simp add: list_all2_map2)
  have tot: "total_cents (?ord ois)
           = foldl (\<lambda>sum oi. fl (sum + fl (of_int (quantity oi) * unitPrice oi)))
               0 (items (?ord ois))"
    by (simp add: foldl_map)
  have exact: "total_cents (?ord ois)
                 = (\<Sum>oi\<leftarrow>items (?ord ois). of_int (quantity oi) * unitPrice oi)"
    if "exactOnSafeIntegers fl \<and> (\<forall>oi\<in>set (items (?ord ois)). unitPrice oi \<in> \<int>)
          \<and> (\<Sum>oi\<leftarrow>items (?ord ois). of_int (quantity oi) * unitPrice oi) \<le> 2 ^ 53"
  proof -
    have each: "\<forall>oi\<in>set (items (?ord ois)).
                  0 \<le> quantity oi \<and> 0 \<le> unitPrice oi \<and> unitPrice oi \<in> \<int>"
      using valid that by (auto simp add: orderSchemaValid_def list_all_iff)
    have "foldl (\<lambda>sum oi. fl (sum + fl (of_int (quantity oi) * unitPrice oi)))
               0 (items (?ord ois))
            = 0 + (\<Sum>oi\<leftarrow>items (?ord ois). of_int (quantity oi) * unitPrice oi)"
      using that each by (intro foldl_total_exact) simp_all
    then show ?thesis by (simp only: tot add_0_left)
  qed
  show "\<exists>ord. r = \<lparr>order = Some ord, message = ''Order created successfully''\<rparr>
               \<and> doc_id ord = newId \<and> userId ord = ObjectId (hexString uId)
               \<and> status ord = created
               \<and> list_all2 (\<lambda>l oi. productId oi = ObjectId (productId l)
                     \<and> quantity oi = quantity l
                     \<and> map_option price (catalogue db (productId l)) = Some (unitPrice oi))
                   ls (items ord)
               \<and> total_cents ord
                   = foldl (\<lambda>sum oi. fl (sum + fl (of_int (quantity oi) * unitPrice oi)))
                       0 (items ord)
               \<and> (exactOnSafeIntegers fl \<and> (\<forall>oi\<in>set (items ord). unitPrice oi \<in> \<int>)
                    \<and> (\<Sum>oi\<leftarrow>items ord. of_int (quantity oi) * unitPrice oi) \<le> 2 ^ 53
                  \<longrightarrow> total_cents ord = (\<Sum>oi\<leftarrow>items ord. of_int (quantity oi) * unitPrice oi))
               \<and> durable db'
                   = (durable db)
                       \<lparr>orders := orders (durable db) @ [ord],
                        products := map (\<lambda>p. p\<lparr>stock := stock p - requested ls (doc_id p)\<rparr>)
                                      (products (durable db))\<rparr>
               \<and> txn db' = None
               \<and> journal db' = journal db @ [durable db']"
  proof (intro exI [of _ "?ord ois"] conjI)
    show "r = \<lparr>order = Some (?ord ois), message = ''Order created successfully''\<rparr>" by (rule r)
    show "list_all2 (\<lambda>l oi. productId oi = ObjectId (productId l)
                     \<and> quantity oi = quantity l
                     \<and> map_option price (catalogue db (productId l)) = Some (unitPrice oi))
                   ls (items (?ord ois))" by (rule rel)
    show "total_cents (?ord ois)
           = foldl (\<lambda>sum oi. fl (sum + fl (of_int (quantity oi) * unitPrice oi)))
               0 (items (?ord ois))" by (rule tot)
    show "exactOnSafeIntegers fl \<and> (\<forall>oi\<in>set (items (?ord ois)). unitPrice oi \<in> \<int>)
          \<and> (\<Sum>oi\<leftarrow>items (?ord ois). of_int (quantity oi) * unitPrice oi) \<le> 2 ^ 53
          \<longrightarrow> total_cents (?ord ois)
                 = (\<Sum>oi\<leftarrow>items (?ord ois). of_int (quantity oi) * unitPrice oi)"
      using exact by blast
  qed (simp_all add: db')
next
  fix e db'
  assume "createOrder fl newId uId ls db = Rejected e db'"
  then have "durable db' = durable db \<and> journal db' = journal db"
    by (auto simp add: createOrder_closed_form [OF assms] Let_def
          split: if_splits option.splits sum.splits simp del: set_map)
  then show "durable db' = durable db" and "journal db' = journal db" by simp_all
qed

theorem createOrder_success_witness:
  "uniqueIds (products (durable shop))
   \<and> exactOnSafeIntegers (\<lambda>x. x)
   \<and> createOrder (\<lambda>x. x) id_O9 id_U1 three_of_A shop
       = Resolved \<lparr>order = Some (order_of id_O9 id_U1 created),
                   message = ''Order created successfully''\<rparr>
           \<lparr>durable = store_after_O9, txn = None, journal = [store_after_O9]\<rparr>
   \<and> total_cents (order_of id_O9 id_U1 created) = 1500
   \<and> map stock (products store_after_O9) = [7, 2]"
proof -
  have ex: "exactOnSafeIntegers (\<lambda>x. x)"
    by (simp add: exactOnSafeIntegers_def)
  from createOrder_success [OF shop_uniqueIds, of "\<lambda>x. x" id_O9 id_U1 three_of_A]
    create_three_of_A
  have "exactOnSafeIntegers (\<lambda>x. x)
          \<and> (\<forall>oi\<in>set (items (order_of id_O9 id_U1 created)). unitPrice oi \<in> \<int>)
          \<and> (\<Sum>oi\<leftarrow>items (order_of id_O9 id_U1 created). of_int (quantity oi) * unitPrice oi)
               \<le> 2 ^ 53
        \<longrightarrow> total_cents (order_of id_O9 id_U1 created)
          = (\<Sum>oi\<leftarrow>items (order_of id_O9 id_U1 created). of_int (quantity oi) * unitPrice oi)"
    by fastforce
  then have "total_cents (order_of id_O9 id_U1 created) = 1500"
    using ex by (simp add: order_of_def)
  moreover have "map stock (products store_after_O9) = [7, 2]"
    by (simp add: store_after_O9_def item_B_def)
  ultimately show ?thesis
    using shop_uniqueIds create_three_of_A ex by simp
qed

section \<open>Stock is never negative\<close>

text \<open>
  C2. Starting from a database with unique product identities and no negative stock, the
  stock of every product is at least 0 after any sequence of \<open>createOrder\<close>, \<open>payOrder\<close>
  and \<open>cancelOrder\<close> calls, each run to completion on the database the one before it left,
  whatever their arguments and whether they succeed or fail.
\<close>

theorem stock_never_negative:
  assumes "uniqueIds (products (durable db))"
      and "stockNonNegative (durable db)"
  shows "stockNonNegative (durable (fold (perform fl) ops db))"
  using assms fold_perform_invariant [of db fl ops]
  by (simp add: stockInvariant_def)

theorem stock_never_negative_witness:
  "uniqueIds (products (durable shop)) \<and> stockNonNegative (durable shop)
   \<and> stockNonNegative (durable (fold (perform (\<lambda>x. x))
        [Create id_O9 id_U1 three_of_A,
         Pay id_O9 (Some id_U0) True,
         Cancel id_O9 (Some id_U0) True,
         Create id_O9 id_U1 [\<lparr>productId = id_B, quantity = 5\<rparr>],
         Create id_O9 id_U1 [\<lparr>productId = id_B, quantity = 2\<rparr>]] shop))"
  using stock_never_negative [OF shop_uniqueIds shop_stockNonNegative]
    shop_uniqueIds shop_stockNonNegative
  by blast

section \<open>A createOrder that fails\<close>

text \<open>
  C3, where the code departs from it. Item A exists, with stock 10, and the request names
  it by its identity written in upper case, which is the same ObjectId. \<open>findByIds\<close> finds
  the product, so the check of the number of products passes; the map of the products is
  keyed by the printed identity, in lower case, so the lookup of the line gives
  \<open>undefined\<close> and \<open>product.stock\<close> raises a \<open>TypeError\<close>, not a \<open>ValidationError\<close>. The
  database is as it was. (For requests that write every identity as it is printed,
  \<open>createOrder_failure_printed_ids\<close> shows that the failures are the ones listed and are
  all \<open>ValidationError\<close>s.)
\<close>

theorem createOrder_upper_case_id:
  "createOrder (\<lambda>x. x) id_O9 id_U1 [\<lparr>productId = upper_A, quantity = 1\<rparr>] shop
     = Rejected (TypeError (cannotRead ''stock'' ''undefined'')) shop"
  by code_simp

section \<open>Cancelling an order\<close>

text \<open>
  C4, where the code departs from it. Order O1 has status created and one line, three of
  item A; the admin U0 cancels it. \<open>findById\<close> returns the order with its products
  populated, so \<open>item.productId.toString()\<close> is a printed product document; \<open>updateStock\<close>
  cannot cast it to an ObjectId and raises a \<open>CastError\<close>, the transaction is aborted and
  the call fails with the order still created and the stock of item A still 10.
  (\<open>cancelOrder_open_order_fails\<close> shows that this happens for every order that is not
  cancelled: no call of \<open>cancelOrder\<close> on it succeeds, for any actor.)
\<close>

theorem cancelOrder_open_order_aborts:
  "cancelOrder id_O1 (Some id_U0) True shop
     = Rejected (CastError (''Cast to ObjectId failed for value '' @ inspect item_A)) shop"
  by code_simp

section \<open>The transaction coordinator\<close>

text \<open>
  C5. \<open>withTransaction\<close> gives the work a session with a transaction started on the durable
  store. When the work resolves, the result is passed on and the durable store becomes
  the store as the transaction saw it at the end of the work, in one step of the journal;
  when the work is rejected, the same error is passed on and the durable store and the
  journal are the ones the work left, without the writes of the transaction. In
  particular, for a work that issues the writes \<open>ws\<close> against its session and then returns
  \<open>r\<close>, all of \<open>ws\<close> are applied to the durable store; for a work that issues \<open>ws\<close> and
  then raises \<open>e\<close>, the durable store is as before and the caller gets \<open>e\<close>.
\<close>

theorem withTransaction_commit_or_rollback:
  "withTransaction work db =
     (case work ClientSession (startTransaction db) of
        Resolved result db2 \<Rightarrow>
          Resolved result
            \<lparr>durable = view (Some ClientSession) db2, txn = None,
             journal = (case txn db2 of None \<Rightarrow> journal db2 | Some s \<Rightarrow> journal db2 @ [s])\<rparr>
      | Rejected err db2 \<Rightarrow>
          Rejected err \<lparr>durable = durable db2, txn = None, journal = journal db2\<rparr>)
   \<and> withTransaction (\<lambda>session dbt. Resolved r (issue_all ws session dbt)) db
       = Resolved r \<lparr>durable = fold (\<lambda>w. w) ws (durable db), txn = None,
                     journal = journal db @ [fold (\<lambda>w. w) ws (durable db)]\<rparr>
   \<and> withTransaction (\<lambda>session dbt. Rejected e (issue_all ws session dbt)) db
       = Rejected e \<lparr>durable = durable db, txn = None, journal = journal db\<rparr>"
  by (simp add: withTransaction_unfold issue_all_started view_def)

theorem withTransaction_rollback_witness:
  "withTransaction failing_work shop = Rejected (ConflictError ''stop'') shop"
  using withTransaction_commit_or_rollback [of failing_work shop, THEN conjunct1]
  by (simp add: failing_work_def shop_def shop_store_def startTransaction_def
      updateProductStock_def updateStock_def view_def issue_def item_A_def item_B_def
      castObjectId_def isValid_def isHexDigit_def hexString_def lowerHex_def id_A_def id_B_def)

section \<open>Payment\<close>

text \<open>
  C6, where the code departs from it. Order O2 is paid and belongs to the customer U1, who
  pays it again. \<open>findById\<close> returns the order with its user populated, so
  \<open>order.userId.toString()\<close> is a printed user document and differs from the identity of
  every actor: the owner is refused with \<open>ApiError('Access denied', 403)\<close> instead of being
  told that the order is already paid. (\<open>payOrder_idempotent_admin\<close> shows that an admin
  gets that answer, and \<open>non_admin_refused\<close> that every other actor is refused.)
\<close>

theorem payOrder_paid_owner_refused:
  "payOrder id_O2 (Some id_U1) False shop = Rejected (ApiError ''Access denied'' 403) shop"
  by code_simp

text \<open>
  C7, where the code departs from it. Order O3 is cancelled and belongs to the customer
  U1, who tries three times to pay it. Each call is refused by the access check with
  \<open>ApiError('Access denied', 403)\<close>, before the status of the order is looked at; none
  fails with a \<open>ConflictError\<close>. The database is as it was after each call.
  (\<open>payOrder_cancelled_conflict_admin\<close> shows that an admin gets the \<open>ConflictError\<close>.)
\<close>

theorem payOrder_cancelled_owner_refused:
  "retry (Suc (Suc (Suc 0))) (payOrder id_O3 (Some id_U1) False) shop
     = [Rejected (ApiError ''Access denied'' 403) shop,
        Rejected (ApiError ''Access denied'' 403) shop,
        Rejected (ApiError ''Access denied'' 403) shop]"
  by code_simp

section \<open>The access check\<close>

text \<open>
  C8, where the code departs from it. Order O4 exists and belongs to user U9, of whom the
  users collection has no document; the customer U2, who is neither its owner nor an
  admin, pays it and cancels it. \<open>populate\<close> has set \<open>order.userId\<close> to null, so
  \<open>order.userId.toString()\<close> raises a \<open>TypeError\<close>: the calls fail, and change nothing, but
  not with the error of a refused access. (When the document of the owner exists,
  \<open>non_admin_refused\<close> shows that the actor is refused with
  \<open>ApiError('Access denied', 403)\<close>.)
\<close>

theorem pay_cancel_missing_owner:
  "payOrder id_O4 (Some id_U2) False shop
     = Rejected (TypeError (cannotRead ''toString'' ''null'')) shop
   \<and> cancelOrder id_O4 (Some id_U2) False shop
     = Rejected (TypeError (cannotRead ''toString'' ''null'')) shop"
  by code_simp

section \<open>Stock updates for an item that does not exist\<close>

text \<open>
  C9, as the code has it. When \<open>pId\<close> is an identity and no product of the store that the
  call works on has it, \<open>updateStock\<close> and \<open>updateProductStock\<close> raise nothing: they resolve
  with null and leave the database as it was.
\<close>

theorem updateStock_missing_item:
  assumes "isValid pId"
      and "hexString pId \<notin> set (map doc_id (products (view session db)))"
  shows "updateStock pId quantityChange session db = Resolved None db
       \<and> updateProductStock pId quantityChange session db = Resolved None db"
  using assms
  by (simp add: updateStock_def updateProductStock_def castObjectId_valid
      find_None_iff_ids [symmetric] del: set_map)

theorem updateStock_missing_item_witness:
  "isValid id_Z
   \<and> updateStock id_Z 4 None shop = Resolved None shop
   \<and> updateProductStock id_Z 4 None shop = Resolved None shop"
proof -
  have missing: "hexString id_Z \<notin> set (map doc_id (products (view None shop)))"
    by code_simp
  from updateStock_missing_item [OF id_Z_valid(1) missing] id_Z_valid(1) show ?thesis
    by simp
qed

theorem updateStock_missing_item_counterexample:
  "\<not> isRejected (updateProductStock id_Z (- 1) (Some ClientSession) (startTransaction shop))
   \<and> \<not> isRejected (updateProductStock id_Z 1 (Some ClientSession) (startTransaction shop))"
  by code_simp

section \<open>Requests that name an item in more than one line\<close>




end
